theory Spec2Isabelle
  imports Main
begin

section \<open>Errors\<close>

text \<open>
  Every exception the modelled code raises is a value. \<open>AssertionError\<close> is what a failed
  \<^verbatim>\<open>assert\<close> raises, \<open>KeyError\<close> what a dict subscript with a missing key raises.
\<close>

datatype error = OutOfScopeError | KeyError | AssertionError | TypeError | ValueError

section \<open>The logical plan: dtypes, contexts, columns, expressions\<close>

text \<open>
  Modelled from the spec: the class \<^verbatim>\<open>Universe\<close> (\<^verbatim>\<open>pathway.internals.universe\<close>) is
  missing. A universe is an opaque identity token for a set of row keys, an identity object:
  a universe is the number of the object, and \<^verbatim>\<open>==\<close> on universes, which Python decides by
  identity, is equality of these numbers. What the solver knows about two universes is
  asked of the solver.
\<close>

type_synonym universe = nat

text \<open>
  Modelled from the spec: the module \<^verbatim>\<open>pathway.internals.dtype\<close> is missing. The spec
  (section 4.A) lists integers, floats, booleans, strings, pointers, optionals, arrays and tuples.
\<close>

datatype dtype =
    dt_INT | dt_FLOAT | dt_BOOL | dt_STR | dt_POINTER | dt_ANY | dt_NONE
  | Optional dtype
  | Array dtype
  | Tuple "dtype list"

text \<open>
  Modelled from the spec: \<^verbatim>\<open>isinstance(t, dt.Pointer)\<close> and \<^verbatim>\<open>isinstance(t, dt.Optional)\<close>
  test the outermost constructor of the dtype.
\<close>

fun is_Pointer :: "dtype \<Rightarrow> bool" where
  "is_Pointer dt_POINTER = True"
| "is_Pointer _ = False"

fun is_Optional :: "dtype \<Rightarrow> bool" where
  "is_Optional (Optional _) = True"
| "is_Optional _ = False"

text \<open>
  Modelled from the spec: \<^verbatim>\<open>unoptionalize(T)\<close> strips one level of optionality
  (the function of \<^verbatim>\<open>pathway.internals.dtype\<close> is missing).
\<close>

fun unoptionalize :: "dtype \<Rightarrow> dtype" where
  "unoptionalize (Optional t) = t"
| "unoptionalize t = t"

text \<open>
  Modelled from the spec: the classes of \<^verbatim>\<open>pathway.internals.column\<close> and
  \<^verbatim>\<open>pathway.internals.expression\<close> are missing. A context is tagged metadata with the
  fields of the spec's table (section 3); its first field is the universe of the columns
  evaluated in it. A column is materialized, the id column of a context, or a lazy column
  (context, universe, expression). A column reference names its table by the table's object
  identity.
\<close>

datatype "context" =
    RowwiseContext universe
  | FilterContext universe column universe
  | RestrictContext universe universe
  | DifferenceContext universe universe universe
  | IntersectContext universe "universe list"
  | ReindexContext universe column
  | ConcatUnsafeContext universe "universe list" "(string \<times> column) list list"
  | UpdateCellsContext universe "universe list" "(string \<times> column) list"
  | UpdateRowsContext universe "universe list" "(string \<times> column) list"
  | IxContext universe universe column bool
  | HavingContext universe universe column
  | PromiseSameUniverseContext universe universe
  | FlattenContext universe universe column column
and column =
    MaterializedColumn universe dtype
  | IdColumn "context"
  | ColumnWithExpression "context" universe expr
and expr =
    ColumnReference nat column string
  | ColumnConstExpression dtype
  | IsNoneExpression expr
  | IsNotNoneExpression expr
  | DeclareTypeExpression dtype expr
  | CastExpression dtype expr
  | PointerExpression nat "expr list" bool
  | ColumnBinaryOpExpression dtype expr expr

text \<open>\<^verbatim>\<open>context.universe\<close>.\<close>

fun context_universe :: "context \<Rightarrow> universe" where
  "context_universe (RowwiseContext u) = u"
| "context_universe (FilterContext u c orig) = u"
| "context_universe (RestrictContext u orig) = u"
| "context_universe (DifferenceContext u l r) = u"
| "context_universe (IntersectContext u us) = u"
| "context_universe (ReindexContext u c) = u"
| "context_universe (ConcatUnsafeContext u us upd) = u"
| "context_universe (UpdateCellsContext u us upd) = u"
| "context_universe (UpdateRowsContext u us upd) = u"
| "context_universe (IxContext u orig k opt) = u"
| "context_universe (HavingContext u orig k) = u"
| "context_universe (PromiseSameUniverseContext u orig) = u"
| "context_universe (FlattenContext u orig c r) = u"

text \<open>\<^verbatim>\<open>column.universe\<close>: every column records its universe; the id column is bound to
  the universe of its context.\<close>

fun column_universe :: "column \<Rightarrow> universe" where
  "column_universe (MaterializedColumn u t) = u"
| "column_universe (IdColumn ctx) = context_universe ctx"
| "column_universe (ColumnWithExpression ctx u e) = u"

section \<open>Scope lowering state (graph\_runner/state.py)\<close>

text \<open>
  Engine handles are opaque; an engine column carries the engine universe it lives in
  (\<^verbatim>\<open>value.universe\<close> in \<^verbatim>\<open>set_column\<close>).
\<close>

type_synonym engine_universe = nat
type_synonym engine_table = nat
type_synonym column_path = "nat list"

record engine_column =
  handle :: nat
  engine_universe_of :: engine_universe

text \<open>
  The engine scope is an external collaborator; the two calls the lowering makes are
  parameters of the model.
\<close>

record scope =
  table_universe :: "engine_table \<Rightarrow> engine_universe"
  table_column :: "engine_universe \<Rightarrow> engine_table \<Rightarrow> column_path \<Rightarrow> engine_column"

text \<open>
  Modelled from the spec: \<^verbatim>\<open>Storage\<close> (\<^verbatim>\<open>graph_runner/path_storage.py\<close> is missing) is a
  per-universe mapping from columns to column paths within one physical table.
\<close>

record storage =
  storage_universe :: universe
  storage_paths :: "column \<rightharpoonup> column_path"

definition storage_has_column :: "storage \<Rightarrow> column \<Rightarrow> bool" where
  "storage_has_column st c = (storage_paths st c \<noteq> None)"

definition get_path :: "storage \<Rightarrow> column \<Rightarrow> error + column_path" where
  "get_path st c = (case storage_paths st c of None \<Rightarrow> Inl KeyError | Some p \<Rightarrow> Inr p)"

text \<open>The dictionaries of \<^verbatim>\<open>ScopeState\<close> that resolution of universes and columns uses.\<close>

record scope_state =
  columns :: "column \<rightharpoonup> engine_column"
  universes :: "universe \<rightharpoonup> engine_universe"
  tables :: "universe \<rightharpoonup> engine_table"
  storages :: "universe \<rightharpoonup> storage"

definition init_state :: scope_state where
  "init_state = \<lparr>columns = Map.empty, universes = Map.empty, tables = Map.empty,
                 storages = Map.empty\<rparr>"

text \<open>
  Every method returns its result, or the exception it raises, together with the state it
  leaves behind: a mutation made before a raise stays.
\<close>

definition get_table :: "scope_state \<Rightarrow> storage \<Rightarrow> error + engine_table" where
  "get_table s key =
     (case tables s (storage_universe key) of None \<Rightarrow> Inl KeyError | Some t \<Rightarrow> Inr t)"

definition set_table :: "scope_state \<Rightarrow> storage \<Rightarrow> engine_table \<Rightarrow> scope_state" where
  "set_table s st t =
     s\<lparr>tables := (tables s)(storage_universe st \<mapsto> t),
       storages := (storages s)(storage_universe st \<mapsto> st)\<rparr>"

definition get_storage :: "scope_state \<Rightarrow> universe \<Rightarrow> error + storage" where
  "get_storage s key =
     (case storages s key of None \<Rightarrow> Inl OutOfScopeError | Some st \<Rightarrow> Inr st)"

definition set_universe ::
  "scope_state \<Rightarrow> universe \<Rightarrow> engine_universe \<Rightarrow> (error + unit) \<times> scope_state" where
  "set_universe s key v =
     (case universes s key of
        Some old \<Rightarrow> if old = v then (Inr (), s) else (Inl AssertionError, s)
      | None \<Rightarrow> (Inr (), s\<lparr>universes := (universes s)(key \<mapsto> v)\<rparr>))"

definition has_universe :: "scope_state \<Rightarrow> universe \<Rightarrow> bool" where
  "has_universe s key = (universes s key \<noteq> None)"

definition extract_universe ::
  "scope \<Rightarrow> scope_state \<Rightarrow> universe \<Rightarrow> (error + engine_universe) \<times> scope_state" where
  "extract_universe sc s u =
     (case get_storage s u of
        Inl e \<Rightarrow> (Inl e, s)
      | Inr st \<Rightarrow>
          (case get_table s st of
             Inl e \<Rightarrow> (Inl e, s)
           | Inr engine_table \<Rightarrow>
               (let engine_universe = table_universe sc engine_table in
                case set_universe s u engine_universe of
                  (Inl e, s') \<Rightarrow> (Inl e, s')
                | (Inr _, s') \<Rightarrow> (Inr engine_universe, s'))))"

definition get_universe ::
  "scope \<Rightarrow> scope_state \<Rightarrow> universe \<Rightarrow> (error + engine_universe) \<times> scope_state" where
  "get_universe sc s key =
     (case universes s key of
        None \<Rightarrow> extract_universe sc s key
      | Some v \<Rightarrow> (Inr v, s))"

definition set_column ::
  "scope_state \<Rightarrow> column \<Rightarrow> engine_column \<Rightarrow> (error + unit) \<times> scope_state" where
  "set_column s key v =
     set_universe (s\<lparr>columns := (columns s)(key \<mapsto> v)\<rparr>)
       (column_universe key) (engine_universe_of v)"

definition extract_column ::
  "scope \<Rightarrow> scope_state \<Rightarrow> column \<Rightarrow> (error + engine_column) \<times> scope_state" where
  "extract_column sc s c =
     (let u = column_universe c in
      case get_storage s u of
        Inl e \<Rightarrow> (Inl e, s)
      | Inr st \<Rightarrow>
          if \<not> storage_has_column st c then (Inl OutOfScopeError, s)
          else
            (case get_table s st of
               Inl e \<Rightarrow> (Inl e, s)
             | Inr engine_table \<Rightarrow>
                 (case (if \<not> has_universe s u then extract_universe sc s u
                        else get_universe sc s u) of
                    (Inl e, s1) \<Rightarrow> (Inl e, s1)
                  | (Inr engine_universe, s1) \<Rightarrow>
                      (case get_path st c of
                         Inl e \<Rightarrow> (Inl e, s1)
                       | Inr column_path \<Rightarrow>
                           (let engine_column =
                                  table_column sc engine_universe engine_table column_path in
                            case set_column s1 c engine_column of
                              (Inl e, s2) \<Rightarrow> (Inl e, s2)
                            | (Inr _, s2) \<Rightarrow> (Inr engine_column, s2))))))"

definition get_column ::
  "scope \<Rightarrow> scope_state \<Rightarrow> column \<Rightarrow> (error + engine_column) \<times> scope_state" where
  "get_column sc s key =
     (case columns s key of
        None \<Rightarrow> extract_column sc s key
      | Some v \<Rightarrow> (Inr v, s))"

text \<open>\<^verbatim>\<open>has_column\<close> catches \<^verbatim>\<open>OutOfScopeError\<close> only; any other exception passes through.\<close>

definition has_column ::
  "scope \<Rightarrow> scope_state \<Rightarrow> column \<Rightarrow> (error + bool) \<times> scope_state" where
  "has_column sc s key =
     (case get_column sc s key of
        (Inr _, s') \<Rightarrow> (Inr True, s')
      | (Inl OutOfScopeError, s') \<Rightarrow> (Inr False, s')
      | (Inl e, s') \<Rightarrow> (Inl e, s'))"

section \<open>Tables (table.py)\<close>

subsection \<open>Dictionaries\<close>

text \<open>
  A Python dict keeps insertion order and has unique keys: an association list with distinct
  keys. Assigning to a present key keeps its place, assigning to a new key appends;
  \<^verbatim>\<open>d.update(other)\<close> assigns the items of \<open>other\<close> in order; a subscript with a missing
  key raises \<^verbatim>\<open>KeyError\<close>.
\<close>

fun dict_set :: "string \<Rightarrow> 'a \<Rightarrow> (string \<times> 'a) list \<Rightarrow> (string \<times> 'a) list" where
  "dict_set k v [] = [(k, v)]"
| "dict_set k v ((k', v') # d) = (if k' = k then (k, v) # d else (k', v') # dict_set k v d)"

fun dict_update :: "(string \<times> 'a) list \<Rightarrow> (string \<times> 'a) list \<Rightarrow> (string \<times> 'a) list" where
  "dict_update d [] = d"
| "dict_update d ((k, v) # other) = dict_update (dict_set k v d) other"

definition dict_get :: "(string \<times> 'a) list \<Rightarrow> string \<Rightarrow> error + 'a" where
  "dict_get d k = (case map_of d k of None \<Rightarrow> Inl KeyError | Some v \<Rightarrow> Inr v)"

text \<open>A loop whose body may raise: the first exception ends it.\<close>

fun traverse :: "('a \<Rightarrow> error + 'b) \<Rightarrow> 'a list \<Rightarrow> error + 'b list" where
  "traverse f [] = Inr []"
| "traverse f (x # xs) =
     (case f x of
        Inl e \<Rightarrow> Inl e
      | Inr y \<Rightarrow> (case traverse f xs of Inl e \<Rightarrow> Inl e | Inr ys \<Rightarrow> Inr (y # ys)))"

subsection \<open>Type interpretation\<close>

text \<open>
  Modelled from the spec: the type interpreter (\<^verbatim>\<open>pathway.internals.type_interpreter\<close>) is
  missing. Typing is by structural evaluation: a reference has the dtype of its column, a
  lazy column the dtype of its expression, the id column is a pointer, a test for
  \<open>None\<close> is a boolean, a declared or cast expression has the given dtype, and a pointer
  expression is a pointer; asked to be optional, it is an optional pointer when one of its
  arguments is optional.
\<close>

fun column_dtype :: "column \<Rightarrow> dtype" and expr_dtype :: "expr \<Rightarrow> dtype" where
  "column_dtype (MaterializedColumn u t) = t"
| "column_dtype (IdColumn ctx) = dt_POINTER"
| "column_dtype (ColumnWithExpression ctx u e) = expr_dtype e"
| "expr_dtype (ColumnReference tb c name) = column_dtype c"
| "expr_dtype (ColumnConstExpression t) = t"
| "expr_dtype (IsNoneExpression e) = dt_BOOL"
| "expr_dtype (IsNotNoneExpression e) = dt_BOOL"
| "expr_dtype (DeclareTypeExpression t e) = t"
| "expr_dtype (CastExpression t e) = t"
| "expr_dtype (PointerExpression tb args optional) =
     (if optional \<and> (\<exists>arg \<in> set args. is_Optional (expr_dtype arg)) then Optional dt_POINTER
      else dt_POINTER)"
| "expr_dtype (ColumnBinaryOpExpression t l r) = t"

text \<open>
  Modelled from the spec: \<^verbatim>\<open>expression._dependencies_above_reducer()\<close> (missing) yields the
  column references of an expression; here, the columns they refer to.
\<close>

fun dependencies :: "expr \<Rightarrow> column list" where
  "dependencies (ColumnReference tb c name) = [c]"
| "dependencies (ColumnConstExpression t) = []"
| "dependencies (IsNoneExpression e) = dependencies e"
| "dependencies (IsNotNoneExpression e) = dependencies e"
| "dependencies (DeclareTypeExpression t e) = dependencies e"
| "dependencies (CastExpression t e) = dependencies e"
| "dependencies (PointerExpression tb args optional) = concat (map dependencies args)"
| "dependencies (ColumnBinaryOpExpression t l r) = dependencies l @ dependencies r"

text \<open>
  Modelled from the spec: \<^verbatim>\<open>get_column_filtered_by_is_none\<close> (missing) recognizes the
  syntactic pattern \<^verbatim>\<open>col is not None\<close> and returns the reference \<open>col\<close>: its table, column
  and name.
\<close>

fun get_column_filtered_by_is_none :: "expr \<Rightarrow> (nat \<times> column \<times> string) option" where
  "get_column_filtered_by_is_none (IsNotNoneExpression (ColumnReference tb c name)) =
     Some (tb, c, name)"
| "get_column_filtered_by_is_none _ = None"

subsection \<open>The table and the global graph\<close>

text \<open>
  The fields of \<^verbatim>\<open>Table\<close>: \<open>t_columns\<close> is \<^verbatim>\<open>_columns\<close>, \<open>t_universe\<close> is
  \<^verbatim>\<open>_universe\<close>, and so on; \<open>tid\<close> is the identity of the object, which \<^verbatim>\<open>==\<close> on
  tables compares. A schema is kept as the ordered mapping from column names to dtypes.
\<close>

record table =
  tid :: nat
  t_columns :: "(string \<times> column) list"
  t_universe :: universe
  t_pk_columns :: "(string \<times> column) list"
  t_schema :: "(string \<times> dtype) list"
  t_id_column :: column

text \<open>
  \<^verbatim>\<open>_context\<close> is set by \<^verbatim>\<open>__init__\<close> to the rowwise context of the table's universe and is
  never assigned again.
\<close>

definition t_context :: "table \<Rightarrow> context" where
  "t_context self = RowwiseContext (t_universe self)"

text \<open>
  Modelled from the spec: \<^verbatim>\<open>schema_from_columns\<close> (\<^verbatim>\<open>pathway.internals.schema\<close> is missing)
  gives every column name, in the order of the columns, the dtype of its column.
\<close>

definition schema_from_columns :: "(string \<times> column) list \<Rightarrow> (string \<times> dtype) list" where
  "schema_from_columns cols = map (\<lambda>(name, c). (name, column_dtype c)) cols"

text \<open>
  The universe solver (\<^verbatim>\<open>pathway.internals.universe_solver\<close>, reached through
  \<^verbatim>\<open>G.universe_solver\<close>, \<^verbatim>\<open>Universe.subset\<close>, \<^verbatim>\<open>Universe.is_subset_of\<close> and
  \<^verbatim>\<open>universes.promise_are_equal\<close>) is missing: its operations are parameters of the model,
  over a solver state of any type. Operations that allocate a universe or record a promise
  return the new solver state.
\<close>

record 's universe_solver =
  query_are_equal :: "'s \<Rightarrow> universe \<Rightarrow> universe \<Rightarrow> bool"
  query_are_disjoint :: "'s \<Rightarrow> universe list \<Rightarrow> bool"
  query_is_subset :: "'s \<Rightarrow> universe \<Rightarrow> universe \<Rightarrow> bool"
  get_union :: "'s \<Rightarrow> universe list \<Rightarrow> universe \<times> 's"
  get_subset :: "'s \<Rightarrow> universe \<Rightarrow> universe \<times> 's"
  get_difference :: "'s \<Rightarrow> universe \<Rightarrow> universe \<Rightarrow> universe \<times> 's"
  get_intersection :: "'s \<Rightarrow> universe list \<Rightarrow> universe \<times> 's"
  promise_are_equal :: "'s \<Rightarrow> universe \<Rightarrow> universe \<Rightarrow> error + 's"

text \<open>
  The global state of plan building: the state of the solver, the identity the next table
  object gets, and the warnings issued so far.
\<close>

record 's graph =
  solver :: 's
  next_table :: nat
  warnings :: "string list"

type_synonym ('a, 's) op_result = "error + ('a \<times> 's graph)"

text \<open>\<^verbatim>\<open>Table.__init__\<close>; \<open>columns\<close> and \<open>pk_columns\<close> arrive as dicts.\<close>

definition Table_init ::
  "'s graph \<Rightarrow> (string \<times> column) list \<Rightarrow> universe \<Rightarrow> (string \<times> column) list \<Rightarrow>
   (string \<times> dtype) list option \<Rightarrow> column option \<Rightarrow> table \<times> 's graph" where
  "Table_init G cols u pk_columns schema id_column =
     (let schema' = (case schema of None \<Rightarrow> schema_from_columns cols | Some sch \<Rightarrow> sch)
      in (\<lparr>tid = next_table G, t_columns = cols, t_universe = u, t_pk_columns = pk_columns,
           t_schema = schema',
           t_id_column = (case id_column of None \<Rightarrow> IdColumn (RowwiseContext u)
                          | Some c \<Rightarrow> c)\<rparr>,
          G\<lparr>next_table := Suc (next_table G)\<rparr>))"

definition keys :: "table \<Rightarrow> string list" where
  "keys t = map fst (t_columns t)"

text \<open>\<^verbatim>\<open>Table.id\<close>, \<^verbatim>\<open>_get_colref_by_name\<close> and \<^verbatim>\<open>__getitem__\<close> for a name.\<close>

definition table_id :: "table \<Rightarrow> expr" where
  "table_id self = ColumnReference (tid self) (t_id_column self) ''id''"

definition get_colref_by_name :: "table \<Rightarrow> string \<Rightarrow> error + expr" where
  "get_colref_by_name self name =
     (if name = ''id'' then Inr (table_id self)
      else case map_of (t_columns self) name of
             None \<Rightarrow> Inl KeyError
           | Some c \<Rightarrow> Inr (ColumnReference (tid self) c name))"

text \<open>\<^verbatim>\<open>dict(self)\<close>: every column name with the reference \<^verbatim>\<open>self[name]\<close>.\<close>

definition table_items :: "table \<Rightarrow> error + (string \<times> expr) list" where
  "table_items self =
     traverse (\<lambda>name. case get_colref_by_name self name of
                         Inl e \<Rightarrow> Inl e | Inr r \<Rightarrow> Inr (name, r)) (keys self)"

definition wrap_column_in_context :: "table \<Rightarrow> context \<Rightarrow> column \<Rightarrow> string \<Rightarrow> column" where
  "wrap_column_in_context self ctx c name =
     ColumnWithExpression ctx (context_universe ctx) (ColumnReference (tid self) c name)"

definition wrap_columns :: "table \<Rightarrow> context \<Rightarrow> (string \<times> column) list" where
  "wrap_columns self ctx =
     map (\<lambda>(name, c). (name, wrap_column_in_context self ctx c name)) (t_columns self)"

definition table_with_context :: "'s graph \<Rightarrow> table \<Rightarrow> context \<Rightarrow> table \<times> 's graph" where
  "table_with_context G self ctx =
     Table_init G (wrap_columns self ctx) (context_universe ctx) (t_pk_columns self) None
       (Some (IdColumn ctx))"

definition eval_column :: "table \<Rightarrow> expr \<Rightarrow> column" where
  "eval_column self expression =
     ColumnWithExpression (t_context self) (context_universe (t_context self)) expression"

definition eval_type :: "table \<Rightarrow> expr \<Rightarrow> dtype" where
  "eval_type self expression = expr_dtype expression"

definition with_same_universe ::
  "'s graph \<Rightarrow> table \<Rightarrow> (string \<times> column) list \<Rightarrow> table \<times> 's graph" where
  "with_same_universe G self cols =
     Table_init G cols (t_universe self) (t_pk_columns self) None
       (Some (IdColumn (t_context self)))"

definition validate_expression :: "table \<Rightarrow> expr \<Rightarrow> error + unit" where
  "validate_expression self expression =
     (if \<forall>dep \<in> set (dependencies expression). t_universe self = column_universe dep
      then Inr () else Inl ValueError)"

text \<open>
  \<^verbatim>\<open>select\<close>: \<open>all_args\<close> is the dict of names and expressions that
  \<^verbatim>\<open>combine_args_kwargs\<close> hands over. The decorators (\<^verbatim>\<open>desugar\<close>, \<^verbatim>\<open>runtime_type_check\<close>,
  \<^verbatim>\<open>contextualized_operator\<close>, \<^verbatim>\<open>trace_user_frame\<close>) do not change what an operator
  returns for expressions that are already desugared, and are left out throughout.
\<close>

definition select :: "'s graph \<Rightarrow> table \<Rightarrow> (string \<times> expr) list \<Rightarrow> (table, 's) op_result" where
  "select G self all_args =
     (case traverse (\<lambda>(new_name, expression).
                       case validate_expression self expression of
                         Inl e \<Rightarrow> Inl e
                       | Inr _ \<Rightarrow> Inr (new_name, eval_column self expression)) all_args of
        Inl e \<Rightarrow> Inl e
      | Inr new_columns \<Rightarrow> Inr (with_same_universe G self new_columns))"

definition with_columns ::
  "'s graph \<Rightarrow> table \<Rightarrow> (string \<times> expr) list \<Rightarrow> (table, 's) op_result" where
  "with_columns G self kwargs =
     (case select G self kwargs of
        Inl e \<Rightarrow> Inl e
      | Inr (other, G1) \<Rightarrow>
          (case table_items self of
             Inl e \<Rightarrow> Inl e
           | Inr cols \<Rightarrow>
               (case table_items other of
                  Inl e \<Rightarrow> Inl e
                | Inr other_cols \<Rightarrow> select G1 self (dict_update cols other_cols))))"

text \<open>
  \<^verbatim>\<open>update_types\<close> and \<^verbatim>\<open>cast_to_types\<close>; \<^verbatim>\<open>declare_type\<close> and \<^verbatim>\<open>cast\<close> of
  \<^verbatim>\<open>pathway.internals.common\<close> build the two expressions.
\<close>

definition typed_columns ::
  "(dtype \<Rightarrow> expr \<Rightarrow> expr) \<Rightarrow> 's graph \<Rightarrow> table \<Rightarrow> (string \<times> dtype) list \<Rightarrow>
   (table, 's) op_result" where
  "typed_columns wrap G self kwargs =
     (if \<exists>name \<in> set (map fst kwargs). name \<notin> set (keys self) then Inl ValueError
      else case traverse (\<lambda>(key, val). case get_colref_by_name self key of
                                          Inl e \<Rightarrow> Inl e
                                        | Inr r \<Rightarrow> Inr (key, wrap val r)) kwargs of
             Inl e \<Rightarrow> Inl e
           | Inr args \<Rightarrow> with_columns G self args)"

definition update_types :: "'s graph \<Rightarrow> table \<Rightarrow> (string \<times> dtype) list \<Rightarrow> (table, 's) op_result" where
  "update_types = typed_columns DeclareTypeExpression"

definition cast_to_types :: "'s graph \<Rightarrow> table \<Rightarrow> (string \<times> dtype) list \<Rightarrow> (table, 's) op_result" where
  "cast_to_types = typed_columns CastExpression"

text \<open>
  \<^verbatim>\<open>_from_schema\<close>: materialized columns over a new universe \<open>u\<close> (\<^verbatim>\<open>Universe()\<close>), one
  for every name of the schema.
\<close>

definition from_schema ::
  "'s graph \<Rightarrow> (string \<times> dtype) list \<Rightarrow> universe \<Rightarrow> table \<times> 's graph" where
  "from_schema G schema u =
     Table_init G (map (\<lambda>(name, t). (name, MaterializedColumn u t)) schema) u [] (Some schema)
       None"

definition copy :: "'s graph \<Rightarrow> table \<Rightarrow> table \<times> 's graph" where
  "copy G self =
     Table_init G (wrap_columns self (t_context self)) (t_universe self) (t_pk_columns self)
       None None"

subsection \<open>Operators\<close>

text \<open>
  A public operator and the private, contextualized operator of the same name
  (\<^verbatim>\<open>filter\<close> and \<^verbatim>\<open>_filter\<close>, \<^verbatim>\<open>ix\<close> and \<^verbatim>\<open>_ix\<close>, ...) are told apart by the suffix
  \<open>_impl\<close> of the private one. \<^verbatim>\<open>universe.subset()\<close> and \<^verbatim>\<open>a.is_subset_of(b)\<close> are the
  solver's \<open>get_subset\<close> and \<open>query_is_subset\<close>.
\<close>

definition filter_impl ::
  "'s universe_solver \<Rightarrow> 's graph \<Rightarrow> table \<Rightarrow> expr \<Rightarrow> (table, 's) op_result" where
  "filter_impl sv G self filter_expression =
     (case validate_expression self filter_expression of
        Inl e \<Rightarrow> Inl e
      | Inr _ \<Rightarrow>
          (let filtering_column = eval_column self filter_expression in
           if t_universe self \<noteq> column_universe filtering_column then Inl AssertionError
           else
             (let (u, s') = get_subset sv (solver G) (t_universe self);
                  ctx = FilterContext u filtering_column (t_universe self)
              in Inr (table_with_context (G\<lparr>solver := s'\<rparr>) self ctx))))"

definition filter_table ::
  "'s universe_solver \<Rightarrow> 's graph \<Rightarrow> table \<Rightarrow> expr \<Rightarrow> (table, 's) op_result" where
  "filter_table sv G self filter_expression =
     (if eval_type self filter_expression \<noteq> dt_BOOL then Inl TypeError
      else case filter_impl sv G self filter_expression of
             Inl e \<Rightarrow> Inl e
           | Inr (ret, G1) \<Rightarrow>
               (case get_column_filtered_by_is_none filter_expression of
                  None \<Rightarrow> Inr (ret, G1)
                | Some (tb, c, name) \<Rightarrow>
                    if tb = tid self then
                      (case dict_get (t_columns self) name of
                         Inl e \<Rightarrow> Inl e
                       | Inr col \<Rightarrow>
                           update_types G1 ret [(name, unoptionalize (column_dtype col))])
                    else Inr (ret, G1)))"

text \<open>
  \<^verbatim>\<open>_ix\<close>: a column reference holds only the identity of its table, so the table
  \<^verbatim>\<open>key_expression._table\<close> and the column \<^verbatim>\<open>key_expression._column\<close> are handed over.
\<close>

definition ix_impl ::
  "'s graph \<Rightarrow> table \<Rightarrow> table \<Rightarrow> column \<Rightarrow> bool \<Rightarrow> table \<times> 's graph" where
  "ix_impl G self key_universe_table key_column optional =
     table_with_context G self
       (IxContext (t_universe key_universe_table) (t_universe self) key_column optional)"

text \<open>
  What \<^verbatim>\<open>ix\<close> takes for a context and finds in an expression: a table, one of the classes
  \<^verbatim>\<open>pw.this\<close>, \<^verbatim>\<open>pw.left\<close>, \<^verbatim>\<open>pw.right\<close> (\<^verbatim>\<open>pw.this\<close> is number 0), or a grouped
  joinable; each by its identity. Join results, whose class is missing, are left out.
  \<^verbatim>\<open>ix\<close> returns a table, or the delayed operation \<^verbatim>\<open>context._delayed_op(...)\<close> of a
  \<^verbatim>\<open>this\<close> class, which holds the indexed table, the expression and the flag.
\<close>

datatype table_like = TableObj table | ThisObj nat | GroupedObj nat

datatype ix_result = IndexedTable table | DelayedOperation nat nat expr bool

text \<open>
  The missing code \<^verbatim>\<open>ix\<close> calls is a parameter of the model: \<^verbatim>\<open>collect_tables\<close>
  (\<^verbatim>\<open>pathway.internals.expression_visitor\<close>), which lists the tables an expression refers
  to; \<^verbatim>\<open>RestrictUniverseDesugaring(context).eval_expression\<close>
  (\<^verbatim>\<open>pathway.internals.desugaring\<close>), which rewrites the expression for the context table
  and may build tables on the way; and \<^verbatim>\<open>dt.dtype_issubclass\<close>.
\<close>

record 's ix_library =
  collect_tables :: "expr \<Rightarrow> table_like list"
  restrict_universe :: "'s graph \<Rightarrow> table \<Rightarrow> expr \<Rightarrow> expr \<times> 's graph"
  dtype_issubclass :: "dtype \<Rightarrow> dtype \<Rightarrow> bool"

text \<open>
  The first part of \<^verbatim>\<open>ix\<close>: the context the caller gave or, without one, the context
  inferred from the tables of the expression. No tables: \<^verbatim>\<open>pw.this\<close>. All the same: that
  one. Otherwise all of them have to be tables (\<^verbatim>\<open>ValueError\<close>), and the universe of the
  first has to be equal to the universe of each, asked of the solver by
  \<^verbatim>\<open>is_equal_to\<close> in an \<^verbatim>\<open>assert\<close>.
\<close>

definition infer_context ::
  "'s universe_solver \<Rightarrow> 's ix_library \<Rightarrow> 's graph \<Rightarrow> expr \<Rightarrow> table_like option \<Rightarrow>
   error + table_like" where
  "infer_context sv lib G expression context =
     (case context of
        Some c \<Rightarrow> Inr c
      | None \<Rightarrow>
          (case collect_tables lib expression of
             [] \<Rightarrow> Inr (ThisObj 0)
           | first # rest \<Rightarrow>
               if \<forall>tab \<in> set (first # rest). tab = first then Inr first
               else
                 (case traverse (\<lambda>tab. case tab of TableObj t \<Rightarrow> Inr t | _ \<Rightarrow> Inl ValueError)
                         (first # rest) of
                    Inl e \<Rightarrow> Inl e
                  | Inr [] \<Rightarrow> Inl ValueError
                  | Inr (t0 # ts) \<Rightarrow>
                      if \<forall>t \<in> set (t0 # ts).
                           query_are_equal sv (solver G) (t_universe t0) (t_universe t)
                      then Inr (TableObj t0) else Inl AssertionError)))"

text \<open>
  \<^verbatim>\<open>ix\<close>: a grouped joinable counts as \<^verbatim>\<open>pw.this\<close>; for a \<^verbatim>\<open>this\<close> class the delayed
  operation is returned and nothing is checked; for a table the expression is rewritten for
  it, the key is selected into the column \<open>tmp\<close> of the context, typed, checked, and handed
  to \<^verbatim>\<open>_ix\<close>.
\<close>

definition ix ::
  "'s universe_solver \<Rightarrow> 's ix_library \<Rightarrow> 's graph \<Rightarrow> table \<Rightarrow> expr \<Rightarrow> bool \<Rightarrow>
   table_like option \<Rightarrow> (ix_result, 's) op_result" where
  "ix sv lib G self expression optional context =
     (case infer_context sv lib G expression context of
        Inl e \<Rightarrow> Inl e
      | Inr (GroupedObj g) \<Rightarrow> Inr (DelayedOperation 0 (tid self) expression optional, G)
      | Inr (ThisObj n) \<Rightarrow> Inr (DelayedOperation n (tid self) expression optional, G)
      | Inr (TableObj ctx_table) \<Rightarrow>
          (let (expression', G0) = restrict_universe lib G ctx_table expression in
           case select G0 ctx_table [(''tmp'', expression')] of
             Inl e \<Rightarrow> Inl e
           | Inr (key_table, G1) \<Rightarrow>
               (case dict_get (t_columns key_table) ''tmp'' of
                  Inl e \<Rightarrow> Inl e
                | Inr key_column \<Rightarrow>
                    (let key_col = ColumnReference (tid key_table) key_column ''tmp'';
                         key_dtype = eval_type self key_col
                     in if (optional \<and>
                            \<not> dtype_issubclass lib key_dtype (Optional dt_POINTER))
                           \<or> (\<not> optional \<and> \<not> is_Pointer key_dtype)
                        then Inl TypeError
                        else
                          (case (if optional \<and> is_Optional key_dtype
                                 then (case traverse
                                              (\<lambda>name. case dict_get (t_schema self) name of
                                                        Inl e \<Rightarrow> Inl e
                                                      | Inr t \<Rightarrow> Inr (name, Optional t))
                                              (keys self) of
                                         Inl e \<Rightarrow> Inl e
                                       | Inr kwargs \<Rightarrow> update_types G1 self kwargs)
                                 else Inr (self, G1)) of
                             Inl e \<Rightarrow> Inl e
                           | Inr (self', G2) \<Rightarrow>
                               (let (ret, G3) = ix_impl G2 self' key_table key_column optional
                                in Inr (IndexedTable ret, G3)))))))"

text \<open>\<^verbatim>\<open>pointer_from\<close> and \<^verbatim>\<open>ix_ref\<close>.\<close>

definition pointer_from :: "table \<Rightarrow> expr list \<Rightarrow> bool \<Rightarrow> expr" where
  "pointer_from self args optional = PointerExpression (tid self) args optional"

definition ix_ref ::
  "'s universe_solver \<Rightarrow> 's ix_library \<Rightarrow> 's graph \<Rightarrow> table \<Rightarrow> expr list \<Rightarrow> bool \<Rightarrow>
   table_like option \<Rightarrow> (ix_result, 's) op_result" where
  "ix_ref sv lib G self args optional context =
     ix sv lib G self (pointer_from self args optional) optional context"

definition unsafe_promise_universe :: "'s graph \<Rightarrow> table \<Rightarrow> table \<Rightarrow> table \<times> 's graph" where
  "unsafe_promise_universe G self other =
     (let ctx = PromiseSameUniverseContext (t_universe other) (t_universe self)
      in Table_init G (wrap_columns self ctx) (context_universe ctx) (t_pk_columns self) None
           (Some (IdColumn ctx)))"

definition with_universe_of ::
  "'s universe_solver \<Rightarrow> 's graph \<Rightarrow> table \<Rightarrow> table \<Rightarrow> (table, 's) op_result" where
  "with_universe_of sv G self other =
     (if t_universe self = t_universe other then Inr (copy G self)
      else case promise_are_equal sv (solver G) (t_universe self) (t_universe other) of
             Inl e \<Rightarrow> Inl e
           | Inr s' \<Rightarrow> Inr (unsafe_promise_universe (G\<lparr>solver := s'\<rparr>) self other))"

text \<open>
  \<^verbatim>\<open>functools.reduce(dt.types_lca, dtypes, initial)\<close>. \<^verbatim>\<open>types_lca\<close> (missing) is a
  parameter: it returns the least common supertype or raises \<^verbatim>\<open>TypeError\<close>.
\<close>

fun reduce :: "('a \<Rightarrow> 'a \<Rightarrow> error + 'a) \<Rightarrow> 'a list \<Rightarrow> 'a \<Rightarrow> error + 'a" where
  "reduce f [] acc = Inr acc"
| "reduce f (x # xs) acc = (case f acc x of Inl e \<Rightarrow> Inl e | Inr acc' \<Rightarrow> reduce f xs acc')"

text \<open>\<^verbatim>\<open>[other.cast_to_types(**schema) for other in others]\<close>.\<close>

fun cast_all ::
  "'s graph \<Rightarrow> (string \<times> dtype) list \<Rightarrow> table list \<Rightarrow> (table list, 's) op_result" where
  "cast_all G schema [] = Inr ([], G)"
| "cast_all G schema (other # others) =
     (case cast_to_types G other schema of
        Inl e \<Rightarrow> Inl e
      | Inr (other', G1) \<Rightarrow>
          (case cast_all G1 schema others of
             Inl e \<Rightarrow> Inl e
           | Inr (others', G2) \<Rightarrow> Inr (other' # others', G2)))"

text \<open>\<^verbatim>\<open>{col_name: other._columns[col_name] for col_name in self.keys()}\<close>.\<close>

definition columns_by_keys :: "table \<Rightarrow> table \<Rightarrow> error + (string \<times> column) list" where
  "columns_by_keys self other =
     traverse (\<lambda>col_name. case dict_get (t_columns other) col_name of
                             Inl e \<Rightarrow> Inl e
                           | Inr c \<Rightarrow> Inr (col_name, c)) (keys self)"

definition concat_impl ::
  "'s universe_solver \<Rightarrow> 's graph \<Rightarrow> table \<Rightarrow> table list \<Rightarrow> (table, 's) op_result" where
  "concat_impl sv G self others =
     (let union_universes = t_universe self # map t_universe others in
      if \<not> query_are_disjoint sv (solver G) union_universes then Inl ValueError
      else
        (let (u, s') = get_union sv (solver G) union_universes in
         case traverse (columns_by_keys self) others of
           Inl e \<Rightarrow> Inl e
         | Inr updates \<Rightarrow>
             (let ctx = ConcatUnsafeContext u union_universes updates
              in Inr (Table_init (G\<lparr>solver := s'\<rparr>) (wrap_columns self ctx) u
                        (t_pk_columns self) None (Some (IdColumn ctx))))))"

definition concat_schema ::
  "(dtype \<Rightarrow> dtype \<Rightarrow> error + dtype) \<Rightarrow> table \<Rightarrow> table list \<Rightarrow>
   error + (string \<times> dtype) list" where
  "concat_schema types_lca self others =
     traverse (\<lambda>key.
         case traverse (\<lambda>other. dict_get (t_schema other) key) others of
           Inl e \<Rightarrow> Inl e
         | Inr dtypes \<Rightarrow>
             (case dict_get (t_schema self) key of
                Inl e \<Rightarrow> Inl e
              | Inr initial \<Rightarrow>
                  (case reduce types_lca dtypes initial of
                     Inl e \<Rightarrow> Inl e
                   | Inr t \<Rightarrow> Inr (key, t)))) (keys self)"

text \<open>\<^verbatim>\<open>concat\<close>; \<^verbatim>\<open>other.keys() != self.keys()\<close> compares the two key views as sets.\<close>

definition concat_tables ::
  "'s universe_solver \<Rightarrow> (dtype \<Rightarrow> dtype \<Rightarrow> error + dtype) \<Rightarrow> 's graph \<Rightarrow> table \<Rightarrow>
   table list \<Rightarrow> (table, 's) op_result" where
  "concat_tables sv types_lca G self others =
     (if \<exists>other \<in> set others. set (keys other) \<noteq> set (keys self) then Inl ValueError
      else case concat_schema types_lca self others of
             Inl e \<Rightarrow> Inl e
           | Inr schema \<Rightarrow>
               (case cast_to_types G self schema of
                  Inl e \<Rightarrow> Inl e
                | Inr (self', G1) \<Rightarrow>
                    (case cast_all G1 schema others of
                       Inl e \<Rightarrow> Inl e
                     | Inr (others', G2) \<Rightarrow> concat_impl sv G2 self' others')))"

definition update_schema ::
  "(dtype \<Rightarrow> dtype \<Rightarrow> error + dtype) \<Rightarrow> table \<Rightarrow> table \<Rightarrow> string list \<Rightarrow>
   error + (string \<times> dtype) list" where
  "update_schema types_lca self other names =
     traverse (\<lambda>key.
         case dict_get (t_schema self) key of
           Inl e \<Rightarrow> Inl e
         | Inr a \<Rightarrow>
             (case dict_get (t_schema other) key of
                Inl e \<Rightarrow> Inl e
              | Inr b \<Rightarrow> (case types_lca a b of Inl e \<Rightarrow> Inl e | Inr t \<Rightarrow> Inr (key, t)))) names"

definition update_rows_impl ::
  "'s universe_solver \<Rightarrow> 's graph \<Rightarrow> table \<Rightarrow> table \<Rightarrow> (table, 's) op_result" where
  "update_rows_impl sv G self other =
     (let union_universes = [t_universe self, t_universe other];
          (u, s') = get_union sv (solver G) union_universes
      in case columns_by_keys self other of
           Inl e \<Rightarrow> Inl e
         | Inr updates \<Rightarrow>
             (let ctx = (if u = t_universe self then UpdateCellsContext u union_universes updates
                         else UpdateRowsContext u union_universes updates)
              in Inr (Table_init (G\<lparr>solver := s'\<rparr>) (wrap_columns self ctx) u
                        (t_pk_columns self) None (Some (IdColumn ctx)))))"

definition update_rows_warning :: string where
  "update_rows_warning =
     ''Universe of self is a subset of universe of other in update_rows. Returning other.''"

definition update_rows ::
  "'s universe_solver \<Rightarrow> (dtype \<Rightarrow> dtype \<Rightarrow> error + dtype) \<Rightarrow> 's graph \<Rightarrow> table \<Rightarrow>
   table \<Rightarrow> (table, 's) op_result" where
  "update_rows sv types_lca G self other =
     (if set (keys other) \<noteq> set (keys self) then Inl ValueError
      else if query_is_subset sv (solver G) (t_universe self) (t_universe other)
      then Inr (other, G\<lparr>warnings := warnings G @ [update_rows_warning]\<rparr>)
      else case update_schema types_lca self other (keys self) of
             Inl e \<Rightarrow> Inl e
           | Inr schema \<Rightarrow>
               (case cast_to_types G self schema of
                  Inl e \<Rightarrow> Inl e
                | Inr (self', G1) \<Rightarrow>
                    (case cast_to_types G1 other schema of
                       Inl e \<Rightarrow> Inl e
                     | Inr (other', G2) \<Rightarrow> update_rows_impl sv G2 self' other')))"

definition update_cells_impl ::
  "'s universe_solver \<Rightarrow> 's graph \<Rightarrow> table \<Rightarrow> table \<Rightarrow> (table, 's) op_result" where
  "update_cells_impl sv G self other =
     (if \<not> query_is_subset sv (solver G) (t_universe other) (t_universe self) then Inl ValueError
      else
        (let union_universes =
               (if t_universe other \<noteq> t_universe self then [t_universe self, t_universe other]
                else [t_universe self])
         in case columns_by_keys other other of
              Inl e \<Rightarrow> Inl e
            | Inr updates \<Rightarrow>
                (let ctx = UpdateCellsContext (t_universe self) union_universes updates
                 in Inr (Table_init G (wrap_columns self ctx) (t_universe self)
                           (t_pk_columns self) None (Some (IdColumn ctx))))))"

definition update_cells_warning :: string where
  "update_cells_warning =
     ''Key sets of self and other in update_cells are the same. Using with_columns instead of update_cells.''"

definition update_cells ::
  "'s universe_solver \<Rightarrow> (dtype \<Rightarrow> dtype \<Rightarrow> error + dtype) \<Rightarrow> 's graph \<Rightarrow> table \<Rightarrow>
   table \<Rightarrow> (table, 's) op_result" where
  "update_cells sv types_lca G self other =
     (if \<not> set (keys other) \<subseteq> set (keys self) then Inl ValueError
      else if t_universe self = t_universe other
      then (case table_items other of
              Inl e \<Rightarrow> Inl e
            | Inr args \<Rightarrow>
                with_columns (G\<lparr>warnings := warnings G @ [update_cells_warning]\<rparr>) self args)
      else case update_schema types_lca self other (keys other) of
             Inl e \<Rightarrow> Inl e
           | Inr schema \<Rightarrow>
               (case cast_to_types G self schema of
                  Inl e \<Rightarrow> Inl e
                | Inr (self', G1) \<Rightarrow>
                    (case cast_to_types G1 other schema of
                       Inl e \<Rightarrow> Inl e
                     | Inr (other', G2) \<Rightarrow> update_cells_impl sv G2 self' other')))"

definition restrict ::
  "'s universe_solver \<Rightarrow> 's graph \<Rightarrow> table \<Rightarrow> table \<Rightarrow> (table, 's) op_result" where
  "restrict sv G self other =
     (if \<not> query_is_subset sv (solver G) (t_universe other) (t_universe self) then Inl ValueError
      else
        (let ctx = RestrictContext (t_universe other) (t_universe self)
         in Inr (Table_init G (wrap_columns self ctx) (t_universe other) (t_pk_columns self)
                   None (Some (IdColumn ctx)))))"

subsection \<open>Further operators\<close>

text \<open>\<^verbatim>\<open>difference\<close> and \<^verbatim>\<open>intersect\<close>.\<close>

definition difference :: "'s universe_solver \<Rightarrow> 's graph \<Rightarrow> table \<Rightarrow> table \<Rightarrow> table \<times> 's graph" where
  "difference sv G self other =
     (let (u, s') = get_difference sv (solver G) (t_universe self) (t_universe other);
          ctx = DifferenceContext u (t_universe self) (t_universe other)
      in table_with_context (G\<lparr>solver := s'\<rparr>) self ctx)"

definition intersect ::
  "'s universe_solver \<Rightarrow> 's graph \<Rightarrow> table \<Rightarrow> table list \<Rightarrow> table \<times> 's graph" where
  "intersect sv G self others =
     (let intersecting_universes = t_universe self # map t_universe others;
          (u, s') = get_intersection sv (solver G) intersecting_universes;
          ctx = (if u \<in> set intersecting_universes then RestrictContext u (t_universe self)
                 else IntersectContext u intersecting_universes)
      in table_with_context (G\<lparr>solver := s'\<rparr>) self ctx)"

text \<open>
  \<^verbatim>\<open>_having\<close> and \<^verbatim>\<open>having\<close>: an indexer is a column reference, handed over as the table
  \<^verbatim>\<open>indexer.table\<close> and the column \<^verbatim>\<open>indexer._column\<close>.
\<close>

definition having_impl ::
  "'s universe_solver \<Rightarrow> 's graph \<Rightarrow> table \<Rightarrow> table \<times> column \<Rightarrow> table \<times> 's graph" where
  "having_impl sv G self indexer =
     (let (u, s') = get_subset sv (solver G) (t_universe (fst indexer));
          ctx = HavingContext u (t_universe self) (snd indexer)
      in table_with_context (G\<lparr>solver := s'\<rparr>) self ctx)"

fun having_all ::
  "'s universe_solver \<Rightarrow> 's graph \<Rightarrow> table \<Rightarrow> (table \<times> column) list \<Rightarrow>
   table list \<times> 's graph" where
  "having_all sv G self [] = ([], G)"
| "having_all sv G self (indexer # indexers) =
     (let (ret, G1) = having_impl sv G self indexer;
          (rets, G2) = having_all sv G1 self indexers
      in (ret # rets, G2))"

definition having ::
  "'s universe_solver \<Rightarrow> 's graph \<Rightarrow> table \<Rightarrow> (table \<times> column) list \<Rightarrow>
   table \<times> 's graph" where
  "having sv G self indexers =
     (case having_all sv G self indexers of
        ([], G1) \<Rightarrow> (self, G1)
      | ([ret], G1) \<Rightarrow> (ret, G1)
      | (ret # rets, G1) \<Rightarrow> intersect sv G1 ret rets)"

text \<open>
  \<^verbatim>\<open>_with_new_index\<close> and \<^verbatim>\<open>with_id\<close>; \<open>u\<close> is the new universe \<^verbatim>\<open>Universe()\<close>.
\<close>

definition with_new_index ::
  "'s graph \<Rightarrow> table \<Rightarrow> expr \<Rightarrow> (string \<times> column) list \<Rightarrow> universe \<Rightarrow>
   (table, 's) op_result" where
  "with_new_index G self new_index pk_columns u =
     (case validate_expression self new_index of
        Inl e \<Rightarrow> Inl e
      | Inr _ \<Rightarrow>
          if \<not> is_Pointer (eval_type self new_index) then Inl TypeError
          else
            (let reindex_column = eval_column self new_index in
             if t_universe self \<noteq> column_universe reindex_column then Inl AssertionError
             else
               (let ctx = ReindexContext u reindex_column
                in Inr (Table_init G (wrap_columns self ctx) u pk_columns None
                          (Some (IdColumn ctx))))))"

definition with_id :: "'s graph \<Rightarrow> table \<Rightarrow> expr \<Rightarrow> universe \<Rightarrow> (table, 's) op_result" where
  "with_id G self new_index u = with_new_index G self new_index [] u"

text \<open>
  \<^verbatim>\<open>without\<close>: the columns to drop are given by name (a column reference counts by its
  name); \<^verbatim>\<open>dict.pop\<close> of a missing key raises \<^verbatim>\<open>KeyError\<close>.
\<close>

fun dict_pop :: "string \<Rightarrow> (string \<times> 'a) list \<Rightarrow> error + (string \<times> 'a) list" where
  "dict_pop k [] = Inl KeyError"
| "dict_pop k ((k', v) # d) =
     (if k' = k then Inr d
      else case dict_pop k d of Inl e \<Rightarrow> Inl e | Inr d' \<Rightarrow> Inr ((k', v) # d'))"

fun pop_all :: "string list \<Rightarrow> (string \<times> 'a) list \<Rightarrow> error + (string \<times> 'a) list" where
  "pop_all [] d = Inr d"
| "pop_all (k # ks) d = (case dict_pop k d of Inl e \<Rightarrow> Inl e | Inr d' \<Rightarrow> pop_all ks d')"

definition without :: "'s graph \<Rightarrow> table \<Rightarrow> string list \<Rightarrow> (table, 's) op_result" where
  "without G self names =
     (case pop_all names (t_columns self) of
        Inl e \<Rightarrow> Inl e
      | Inr new_columns \<Rightarrow>
          Inr (with_same_universe G self
                 (map (\<lambda>(name, c). (name, wrap_column_in_context self (t_context self) c name))
                    new_columns)))"

text \<open>
  \<^verbatim>\<open>rename_columns\<close>: \<open>kwargs\<close> maps every new name to an old name (a column reference
  counts by its name).
\<close>

fun set_all :: "(string \<times> string) list \<Rightarrow> (string \<times> 'a) list \<Rightarrow> (string \<times> 'a) list \<Rightarrow>
  error + (string \<times> 'a) list" where
  "set_all [] cols d = Inr d"
| "set_all ((new_name, old_name) # m) cols d =
     (case dict_get cols old_name of
        Inl e \<Rightarrow> Inl e
      | Inr c \<Rightarrow> set_all m cols (dict_set new_name c d))"

definition rename_columns ::
  "'s graph \<Rightarrow> table \<Rightarrow> (string \<times> string) list \<Rightarrow> (table, 's) op_result" where
  "rename_columns G self kwargs =
     (if \<exists>old_name \<in> set (map snd kwargs). old_name \<notin> set (keys self) then Inl ValueError
      else case pop_all (map snd kwargs) (t_columns self) of
             Inl e \<Rightarrow> Inl e
           | Inr popped \<Rightarrow>
               (case set_all kwargs (t_columns self) popped of
                  Inl e \<Rightarrow> Inl e
                | Inr renamed_columns \<Rightarrow>
                    Inr (with_same_universe G self
                           (map (\<lambda>(name, c).
                                   (name, wrap_column_in_context self (t_context self) c
                                            (case map_of kwargs name of
                                               Some old_name \<Rightarrow> old_name | None \<Rightarrow> name)))
                              renamed_columns))))"

text \<open>
  \<^verbatim>\<open>_flatten\<close> and \<^verbatim>\<open>flatten\<close>; \<open>u\<close> is the new universe \<^verbatim>\<open>Universe()\<close>, and
  \<^verbatim>\<open>FlattenContext.get_flatten_column_dtype\<close> (missing) is a parameter. The flattened column
  has to be a lazy column.
\<close>

definition flatten_impl ::
  "(column \<Rightarrow> error + dtype) \<Rightarrow> 's graph \<Rightarrow> table \<Rightarrow> string \<Rightarrow> universe \<Rightarrow>
   (table, 's) op_result" where
  "flatten_impl get_flatten_column_dtype G self flatten_name u =
     (case dict_get (t_columns self) flatten_name of
        Inl e \<Rightarrow> Inl e
      | Inr flatten_column \<Rightarrow>
          (case flatten_column of
             ColumnWithExpression cc cu ce \<Rightarrow>
               (case get_flatten_column_dtype flatten_column of
                  Inl e \<Rightarrow> Inl e
                | Inr t \<Rightarrow>
                    (let flatten_result_column = MaterializedColumn u t;
                         ctx = FlattenContext u (t_universe self) flatten_column
                                 flatten_result_column;
                         cols = map (\<lambda>(name, c). (name, wrap_column_in_context self ctx c name))
                                  (filter (\<lambda>(name, c). name \<noteq> flatten_name) (t_columns self))
                     in Inr (Table_init G ((flatten_name, flatten_result_column) # cols) u []
                               None (Some (IdColumn ctx)))))
           | _ \<Rightarrow> Inl AssertionError))"

definition flatten ::
  "(column \<Rightarrow> error + dtype) \<Rightarrow> 's graph \<Rightarrow> table \<Rightarrow> (string \<times> expr) list \<Rightarrow> universe \<Rightarrow>
   (table, 's) op_result" where
  "flatten get_flatten_column_dtype G self all_args u =
     (case select G self all_args of
        Inl e \<Rightarrow> Inl e
      | Inr (intermediate_table, G1) \<Rightarrow>
          (case all_args of
             [] \<Rightarrow> Inl ValueError
           | (flatten_name, _) # _ \<Rightarrow>
               flatten_impl get_flatten_column_dtype G1 intermediate_table flatten_name u))"

section \<open>Concrete inputs\<close>

subsection \<open>A concrete solver\<close>

text \<open>
  Modelled from the spec: a solver in the manner of section 4.B for the concrete inputs
  below. It records the promised equalities, the pairs promised disjoint and the subset
  facts, and allocates fresh universes. It is conservative (it takes no transitive closure;
  false negatives are allowed): two universes are equal when they are the same or were
  promised equal, a list of universes is disjoint when all its pairs were promised so, the
  union of universes that are all equal is the first of them and a fresh universe
  otherwise, a difference is a fresh universe, subset of the left and disjoint from the
  right universe, an intersection is an argument that is a subset of all arguments or else
  a fresh subset of each, and promising equal what is known to be disjoint raises
  \<^verbatim>\<open>ValueError\<close>.
\<close>

record simple_solver =
  equal_pairs :: "(universe \<times> universe) list"
  disjoint_pairs :: "(universe \<times> universe) list"
  subset_pairs :: "(universe \<times> universe) list"
  fresh :: universe

definition known :: "(universe \<times> universe) list \<Rightarrow> universe \<Rightarrow> universe \<Rightarrow> bool" where
  "known ps u v = ((u, v) \<in> set ps \<or> (v, u) \<in> set ps)"

fun pairwise_known :: "(universe \<times> universe) list \<Rightarrow> universe list \<Rightarrow> bool" where
  "pairwise_known ps [] = True"
| "pairwise_known ps (u # us) = (list_all (known ps u) us \<and> pairwise_known ps us)"

definition simple_are_equal :: "simple_solver \<Rightarrow> universe \<Rightarrow> universe \<Rightarrow> bool" where
  "simple_are_equal s u v = (u = v \<or> known (equal_pairs s) u v)"

definition simple_solver_ops :: "simple_solver universe_solver" where
  "simple_solver_ops =
     \<lparr>query_are_equal = simple_are_equal,
      query_are_disjoint = (\<lambda>s us. pairwise_known (disjoint_pairs s) us),
      query_is_subset = (\<lambda>s u v. simple_are_equal s u v \<or> (u, v) \<in> set (subset_pairs s)),
      get_union = (\<lambda>s us. case us of
                      [] \<Rightarrow> (fresh s, s\<lparr>fresh := Suc (fresh s)\<rparr>)
                    | u # rest \<Rightarrow>
                        if list_all (simple_are_equal s u) rest then (u, s)
                        else (fresh s, s\<lparr>fresh := Suc (fresh s)\<rparr>)),
      get_subset = (\<lambda>s u. (fresh s, s\<lparr>subset_pairs := (fresh s, u) # subset_pairs s,
                                          fresh := Suc (fresh s)\<rparr>)),
      get_difference = (\<lambda>s u v. (fresh s, s\<lparr>disjoint_pairs := (fresh s, v) # disjoint_pairs s,
                                                subset_pairs := (fresh s, u) # subset_pairs s,
                                                fresh := Suc (fresh s)\<rparr>)),
      get_intersection = (\<lambda>s us.
          case find (\<lambda>u. list_all (\<lambda>v. simple_are_equal s u v \<or> (u, v) \<in> set (subset_pairs s)) us)
                 us of
            Some u \<Rightarrow> (u, s)
          | None \<Rightarrow> (fresh s, s\<lparr>subset_pairs := map (\<lambda>v. (fresh s, v)) us @ subset_pairs s,
                                    fresh := Suc (fresh s)\<rparr>)),
      promise_are_equal = (\<lambda>s u v. if known (disjoint_pairs s) u v then Inl ValueError
                                    else Inr (s\<lparr>equal_pairs := (u, v) # equal_pairs s\<rparr>))\<rparr>"

text \<open>
  Modelled from the spec: a \<^verbatim>\<open>types_lca\<close> for the concrete inputs. It returns the least
  common supertype of equal dtypes and of a dtype and its optional, and raises
  \<^verbatim>\<open>TypeError\<close> where it knows none.
\<close>

definition simple_lca :: "dtype \<Rightarrow> dtype \<Rightarrow> error + dtype" where
  "simple_lca a b =
     (if a = b then Inr a
      else if b = Optional a then Inr b
      else if a = Optional b then Inr a
      else Inl TypeError)"

subsection \<open>A concrete library for ix\<close>



subsection \<open>A concrete scope\<close>

text \<open>
  An engine whose tables live in universe \<open>t + 100\<close>, and a state in which one storage
  holding one column has been registered by \<^verbatim>\<open>set_table\<close> and nothing has been resolved.
\<close>

definition example_scope :: scope where
  "example_scope =
     \<lparr>table_universe = (\<lambda>t. t + 100),
      table_column = (\<lambda>eu t p. \<lparr>handle = t + length p, engine_universe_of = eu\<rparr>)\<rparr>"


definition example_column :: column where
  "example_column = MaterializedColumn 1 dt_INT"

definition example_storage :: storage where
  "example_storage = \<lparr>storage_universe = 1, storage_paths = [example_column \<mapsto> [0]]\<rparr>"

definition example_state :: scope_state where
  "example_state = set_table init_state example_storage 5"

subsection \<open>Concrete tables\<close>

text \<open>
  Two source tables built by \<^verbatim>\<open>_from_schema\<close>: \<open>owners\<close> (object 0, universe 1) and
  \<open>pets\<close> (object 1, universe 2), whose column \<open>owner\<close> is a non-optional pointer.
\<close>

definition example_graph :: "simple_solver graph" where
  "example_graph =
     \<lparr>solver = \<lparr>equal_pairs = [], disjoint_pairs = [], subset_pairs = [], fresh = 10\<rparr>,
      next_table = 0, warnings = []\<rparr>"

definition graph_at :: "nat \<Rightarrow> simple_solver graph" where
  "graph_at n = example_graph\<lparr>next_table := n\<rparr>"

definition owners :: table where
  "owners = fst (from_schema (graph_at 0) [(''name'', dt_STR)] 1)"

definition pets :: table where
  "pets = fst (from_schema (graph_at 1) [(''owner'', dt_POINTER), (''pet'', Optional dt_STR)] 2)"


section \<open>Auxiliary notions for the proofs\<close>

text \<open>The columns \<^verbatim>\<open>select\<close> builds when every expression is valid.\<close>

definition select_columns :: "table \<Rightarrow> (string \<times> expr) list \<Rightarrow> (string \<times> column) list" where
  "select_columns self args = map (\<lambda>(n, e). (n, eval_column self e)) args"

section \<open>More concrete inputs\<close>

text \<open>
  A second table with the schema of \<open>owners\<close> over universe 3 (object 2), and the graph
  after given promises of equality, disjointness and inclusion.
\<close>

definition owners2 :: table where
  "owners2 = fst (from_schema (graph_at 2) [(''name'', dt_STR)] 3)"

definition promised_graph ::
  "(universe \<times> universe) list \<Rightarrow> (universe \<times> universe) list \<Rightarrow>
   (universe \<times> universe) list \<Rightarrow> simple_solver graph" where
  "promised_graph eqs djs subs =
     \<lparr>solver = \<lparr>equal_pairs = eqs, disjoint_pairs = djs, subset_pairs = subs, fresh = 10\<rparr>,
      next_table = 3, warnings = []\<rparr>"

section \<open>The table invariant\<close>

text \<open>The optional column \<open>pet\<close> of \<open>pets\<close>.\<close>

definition pets_pet :: column where
  "pets_pet = MaterializedColumn 2 (Optional dt_STR)"


text \<open>
  The tables the modelled operators produce: a source table built by \<^verbatim>\<open>_from_schema\<close>, and
  every table that \<^verbatim>\<open>select\<close>, \<^verbatim>\<open>with_columns\<close>, \<^verbatim>\<open>update_types\<close>, \<^verbatim>\<open>cast_to_types\<close>,
  \<^verbatim>\<open>copy\<close>, \<^verbatim>\<open>filter\<close>, \<^verbatim>\<open>ix\<close>, \<^verbatim>\<open>with_universe_of\<close>, \<^verbatim>\<open>concat\<close>, \<^verbatim>\<open>update_rows\<close>,
  \<^verbatim>\<open>update_cells\<close>, \<^verbatim>\<open>restrict\<close>, \<^verbatim>\<open>difference\<close>, \<^verbatim>\<open>intersect\<close>, \<^verbatim>\<open>having\<close>, \<^verbatim>\<open>with_id\<close>,
  \<^verbatim>\<open>without\<close>, \<^verbatim>\<open>rename_columns\<close> or \<^verbatim>\<open>flatten\<close> returns when applied, in any state of
  the graph, to tables produced before.
\<close>

inductive produced ::
  "'s universe_solver \<Rightarrow> (dtype \<Rightarrow> dtype \<Rightarrow> error + dtype) \<Rightarrow> (column \<Rightarrow> error + dtype) \<Rightarrow>
   table \<Rightarrow> bool"
  for sv :: "'s universe_solver" and types_lca :: "dtype \<Rightarrow> dtype \<Rightarrow> error + dtype"
    and fdt :: "column \<Rightarrow> error + dtype" where
  by_from_schema: "produced sv types_lca fdt (fst (from_schema (G :: 's graph) schema u))"
| by_select: "produced sv types_lca fdt self \<Longrightarrow> select (G :: 's graph) self args = Inr (t, G') \<Longrightarrow>
     produced sv types_lca fdt t"
| by_with_columns: "produced sv types_lca fdt self \<Longrightarrow>
     with_columns (G :: 's graph) self args = Inr (t, G') \<Longrightarrow> produced sv types_lca fdt t"
| by_update_types: "produced sv types_lca fdt self \<Longrightarrow>
     update_types (G :: 's graph) self kwargs = Inr (t, G') \<Longrightarrow> produced sv types_lca fdt t"
| by_cast_to_types: "produced sv types_lca fdt self \<Longrightarrow>
     cast_to_types (G :: 's graph) self kwargs = Inr (t, G') \<Longrightarrow> produced sv types_lca fdt t"
| by_copy: "produced sv types_lca fdt self \<Longrightarrow> produced sv types_lca fdt (fst (copy (G :: 's graph) self))"
| by_filter: "produced sv types_lca fdt self \<Longrightarrow> filter_table sv G self e = Inr (t, G') \<Longrightarrow>
     produced sv types_lca fdt t"
| by_ix: "produced sv types_lca fdt self \<Longrightarrow>
     ix sv lib G self e optional context = Inr (IndexedTable t, G') \<Longrightarrow>
     produced sv types_lca fdt t"
| by_ix_ref: "produced sv types_lca fdt self \<Longrightarrow>
     ix_ref sv lib G self args optional context = Inr (IndexedTable t, G') \<Longrightarrow>
     produced sv types_lca fdt t"
| by_with_universe_of: "produced sv types_lca fdt self \<Longrightarrow> produced sv types_lca fdt other \<Longrightarrow>
     with_universe_of sv G self other = Inr (t, G') \<Longrightarrow> produced sv types_lca fdt t"
| by_concat: "produced sv types_lca fdt self \<Longrightarrow> \<forall>other \<in> set others. produced sv types_lca fdt other \<Longrightarrow>
     concat_tables sv types_lca G self others = Inr (t, G') \<Longrightarrow> produced sv types_lca fdt t"
| by_update_rows: "produced sv types_lca fdt self \<Longrightarrow> produced sv types_lca fdt other \<Longrightarrow>
     update_rows sv types_lca G self other = Inr (t, G') \<Longrightarrow> produced sv types_lca fdt t"
| by_update_cells: "produced sv types_lca fdt self \<Longrightarrow> produced sv types_lca fdt other \<Longrightarrow>
     update_cells sv types_lca G self other = Inr (t, G') \<Longrightarrow> produced sv types_lca fdt t"
| by_restrict: "produced sv types_lca fdt self \<Longrightarrow> produced sv types_lca fdt other \<Longrightarrow>
     restrict sv G self other = Inr (t, G') \<Longrightarrow> produced sv types_lca fdt t"
| by_difference: "produced sv types_lca fdt self \<Longrightarrow> produced sv types_lca fdt other \<Longrightarrow>
     produced sv types_lca fdt (fst (difference sv G self other))"
| by_intersect: "produced sv types_lca fdt self \<Longrightarrow>
     \<forall>other \<in> set others. produced sv types_lca fdt other \<Longrightarrow>
     produced sv types_lca fdt (fst (intersect sv G self others))"
| by_having: "produced sv types_lca fdt self \<Longrightarrow>
     \<forall>indexer \<in> set indexers. produced sv types_lca fdt (fst indexer) \<Longrightarrow>
     produced sv types_lca fdt (fst (having sv G self indexers))"
| by_with_id: "produced sv types_lca fdt self \<Longrightarrow>
     with_id (G :: 's graph) self new_index u = Inr (t, G') \<Longrightarrow> produced sv types_lca fdt t"
| by_without: "produced sv types_lca fdt self \<Longrightarrow>
     without (G :: 's graph) self names = Inr (t, G') \<Longrightarrow> produced sv types_lca fdt t"
| by_rename_columns: "produced sv types_lca fdt self \<Longrightarrow>
     rename_columns (G :: 's graph) self renames = Inr (t, G') \<Longrightarrow> produced sv types_lca fdt t"
| by_flatten: "produced sv types_lca fdt self \<Longrightarrow>
     flatten fdt (G :: 's graph) self all_args u = Inr (t, G') \<Longrightarrow> produced sv types_lca fdt t"

section \<open>Properties of the scope lowering state\<close>



lemma get_column_oos:
  "fst (get_column sc s c) = Inl OutOfScopeError \<longleftrightarrow>
     columns s c = None \<and>
     (case storages s (column_universe c) of None \<Rightarrow> True
      | Some st \<Rightarrow> \<not> storage_has_column st c)"
  apply (simp add: get_column_def extract_column_def Let_def get_storage_def split: option.splits)
  apply (auto simp: get_table_def has_universe_def get_universe_def extract_universe_def
      get_storage_def set_column_def set_universe_def get_path_def Let_def
      split: option.splits sum.splits prod.splits if_splits)
  done

lemma example_state_simps:
  "storages example_state 1 = Some example_storage"
  "tables example_state (storage_universe example_storage) = Some 5"
  "universes example_state 1 = None"
  "storage_paths example_storage example_column = Some [0]"
  "column_universe example_column = 1"
  "columns example_state example_column = None"
  by (simp_all add: example_state_def set_table_def init_state_def example_storage_def
      example_column_def)

text \<open>
  C7. \<^verbatim>\<open>set_universe\<close> never replaces an entry of the universe cache: whatever key and
  handle it is called with, every entry that was cached stays as it was; called for a cached
  universe it returns with the state unchanged when the handle is the cached one, and fails
  the assertion (state unchanged) when the handles differ.
\<close>

theorem set_universe_never_replaces:
  "universes s k = Some old \<Longrightarrow>
     universes (snd (set_universe s key v)) k = Some old \<and>
     set_universe s k v = (if old = v then (Inr (), s) else (Inl AssertionError, s))"
  by (auto simp: set_universe_def split: option.splits)

theorem set_universe_never_replaces_witness:
  "universes (snd (set_universe init_state 1 7)) 1 = Some 7 \<and>
   universes (snd (set_universe (snd (set_universe init_state 1 7)) 2 9)) 1 = Some 7 \<and>
   set_universe (snd (set_universe init_state 1 7)) 1 7 =
     (Inr (), snd (set_universe init_state 1 7)) \<and>
   set_universe (snd (set_universe init_state 1 7)) 1 8 =
     (Inl AssertionError, snd (set_universe init_state 1 7))"
proof -
  have h: "universes (snd (set_universe init_state 1 7)) 1 = Some 7"
    by (simp add: set_universe_def init_state_def)
  show ?thesis
    using h set_universe_never_replaces [OF h, of 2 9] set_universe_never_replaces [OF h, of 1 7]
      set_universe_never_replaces [OF h, of 1 8]
    by simp
qed



text \<open>
  C9, as stated, fails: a column that \<^verbatim>\<open>set_column\<close> has cached is returned by
  \<^verbatim>\<open>get_column\<close> although its universe has no registered storage.
\<close>

theorem get_column_cached_counterexample:
  "storages (snd (set_column init_state example_column \<lparr>handle = 7, engine_universe_of = 3\<rparr>))
     (column_universe example_column) = None \<and>
   fst (get_column example_scope
          (snd (set_column init_state example_column \<lparr>handle = 7, engine_universe_of = 3\<rparr>))
          example_column) = Inr \<lparr>handle = 7, engine_universe_of = 3\<rparr> \<and>
   fst (has_column example_scope
          (snd (set_column init_state example_column \<lparr>handle = 7, engine_universe_of = 3\<rparr>))
          example_column) = Inr True"
  by (simp add: set_column_def set_universe_def init_state_def example_column_def
      get_column_def has_column_def)

text \<open>
  C9, amended. \<^verbatim>\<open>get_column(C)\<close> raises \<^verbatim>\<open>OutOfScopeError\<close> exactly when \<open>C\<close> is not
  cached and either the universe of \<open>C\<close> has no registered storage or the registered storage
  does not contain \<open>C\<close>. \<^verbatim>\<open>has_column(C)\<close> returns \<open>False\<close> exactly when \<^verbatim>\<open>get_column(C)\<close>
  raises \<^verbatim>\<open>OutOfScopeError\<close>, and \<open>True\<close> exactly when \<^verbatim>\<open>get_column(C)\<close> returns a handle.
\<close>

theorem get_column_out_of_scope:
  "(fst (get_column sc s c) = Inl OutOfScopeError \<longleftrightarrow>
      columns s c = None \<and>
      (case storages s (column_universe c) of None \<Rightarrow> True
       | Some st \<Rightarrow> \<not> storage_has_column st c)) \<and>
   (fst (has_column sc s c) = Inr False \<longleftrightarrow> fst (get_column sc s c) = Inl OutOfScopeError) \<and>
   (fst (has_column sc s c) = Inr True \<longleftrightarrow> (\<exists>h. fst (get_column sc s c) = Inr h))"
proof -
  have b: "fst (has_column sc s c) = Inr False \<longleftrightarrow>
      fst (get_column sc s c) = Inl OutOfScopeError"
    by (cases "get_column sc s c") (auto simp: has_column_def split: sum.splits error.splits)
  have c: "fst (has_column sc s c) = Inr True \<longleftrightarrow> (\<exists>h. fst (get_column sc s c) = Inr h)"
    by (cases "get_column sc s c") (auto simp: has_column_def split: sum.splits error.splits)
  show ?thesis using get_column_oos b c by blast
qed

text \<open>
  C10. \<^verbatim>\<open>has_universe(U)\<close> is the membership test of \<open>U\<close> in the universe cache, in every
  state: it answers \<open>True\<close> exactly for the cached universes, whatever the storages hold,
  and resolves nothing. In a state where the storage and the engine table of \<open>U\<close> are
  registered and \<open>U\<close> has not been resolved yet, \<^verbatim>\<open>has_universe(U)\<close> is \<open>False\<close> while
  \<^verbatim>\<open>get_universe(U)\<close> returns the universe of the engine table and caches it, after which
  \<^verbatim>\<open>has_universe(U)\<close> is \<open>True\<close>. \<^verbatim>\<open>has_column\<close> is not such a test: for a column of that
  storage that is not cached either, it resolves the column (the engine column being in
  the universe of its table), answers \<open>True\<close>, and leaves both the universe and the column
  cached.
\<close>

theorem has_universe_is_cache_lookup:
  "(has_universe s u \<longleftrightarrow> u \<in> dom (universes s)) \<and>
   (storages s u = Some st \<longrightarrow> tables s (storage_universe st) = Some t \<longrightarrow>
    universes s u = None \<longrightarrow>
      \<not> has_universe s u \<and>
      get_universe sc s u =
        (Inr (table_universe sc t), s\<lparr>universes := (universes s)(u \<mapsto> table_universe sc t)\<rparr>) \<and>
      has_universe (snd (get_universe sc s u)) u \<and>
      (storage_paths st c = Some p \<longrightarrow> column_universe c = u \<longrightarrow> columns s c = None \<longrightarrow>
       engine_universe_of (table_column sc (table_universe sc t) t p) = table_universe sc t \<longrightarrow>
         has_column sc s c =
           (Inr True,
            s\<lparr>universes := (universes s)(u \<mapsto> table_universe sc t),
              columns := (columns s)(c \<mapsto> table_column sc (table_universe sc t) t p)\<rparr>)))"
  by (auto simp: has_universe_def get_universe_def extract_universe_def get_storage_def
      get_table_def set_universe_def has_column_def get_column_def extract_column_def
      storage_has_column_def get_path_def set_column_def Let_def)

theorem has_universe_is_cache_lookup_witness:
  "\<not> has_universe example_state 1 \<and>
   fst (get_universe example_scope example_state 1) = Inr 105 \<and>
   has_universe (snd (get_universe example_scope example_state 1)) 1 \<and>
   fst (has_column example_scope example_state example_column) = Inr True \<and>
   columns (snd (has_column example_scope example_state example_column)) example_column =
     Some \<lparr>handle = 6, engine_universe_of = 105\<rparr> \<and>
   universes (snd (has_column example_scope example_state example_column)) 1 = Some 105"
proof -
  have e: "engine_universe_of (table_column example_scope (table_universe example_scope 5) 5 [0])
      = table_universe example_scope 5"
    by (simp add: example_scope_def)
  from has_universe_is_cache_lookup [of example_state 1 example_storage 5 example_scope
      example_column "[0]"] example_state_simps e
  have "\<not> has_universe example_state 1 \<and>
      get_universe example_scope example_state 1 =
        (Inr (table_universe example_scope 5),
         example_state\<lparr>universes := (universes example_state)(1 \<mapsto> table_universe example_scope 5)\<rparr>) \<and>
      has_universe (snd (get_universe example_scope example_state 1)) 1 \<and>
      has_column example_scope example_state example_column =
        (Inr True,
         example_state\<lparr>universes := (universes example_state)(1 \<mapsto> table_universe example_scope 5),
           columns := (columns example_state)(example_column \<mapsto>
             table_column example_scope (table_universe example_scope 5) 5 [0])\<rparr>)"
    by blast
  then show ?thesis by (simp add: example_scope_def has_universe_def)
qed

section \<open>Properties of the table operators\<close>

subsection \<open>Loops, select and the typed rewrites\<close>

lemma traverse_Inr_map:
  "(\<And>x. x \<in> set xs \<Longrightarrow> f x = Inr (g x)) \<Longrightarrow> traverse f xs = Inr (map g xs)"
  by (induction xs) auto


lemma traverse_Inr:
  "traverse f xs = Inr ys \<Longrightarrow> list_all2 (\<lambda>x y. f x = Inr y) xs ys"
  by (induction xs arbitrary: ys) (auto split: sum.splits)


lemma select_traverse_Inr:
  "traverse (\<lambda>(new_name, expression).
       case validate_expression self expression of
         Inl e \<Rightarrow> Inl e
       | Inr _ \<Rightarrow> Inr (new_name, eval_column self expression)) args = Inr cols
   \<Longrightarrow> cols = select_columns self args"
  by (induction args arbitrary: cols) (auto simp: select_columns_def split: sum.splits)

lemma select_Inr:
  "select G self args = Inr (t, G') \<Longrightarrow>
     (t, G') = with_same_universe G self (select_columns self args)"
  by (auto simp: select_def split: sum.splits dest: select_traverse_Inr)


lemma select_ok:
  "(\<And>n e. (n, e) \<in> set args \<Longrightarrow> validate_expression self e = Inr ()) \<Longrightarrow>
     select G self args = Inr (with_same_universe G self (select_columns self args))"
  unfolding select_def select_columns_def
  by (subst traverse_Inr_map[where g = "\<lambda>(n, e). (n, eval_column self e)"]) auto

lemma with_same_universe_simps:
  "t_columns (fst (with_same_universe G self cols)) = cols"
  "t_universe (fst (with_same_universe G self cols)) = t_universe self"
  "t_schema (fst (with_same_universe G self cols)) = schema_from_columns cols"
  "tid (fst (with_same_universe G self cols)) = next_table G"
  "snd (with_same_universe G self cols) = G\<lparr>next_table := Suc (next_table G)\<rparr>"
  by (simp_all add: with_same_universe_def Table_init_def Let_def)








lemma key_dtype:
  "eval_type self (ColumnReference tb (eval_column ctx e) name) = expr_dtype e"
  by (simp add: eval_type_def eval_column_def)




lemma owners_simps:
  "tid owners = 0" "t_universe owners = 1"
  "t_columns owners = [(''name'', MaterializedColumn 1 dt_STR)]"
  "t_schema owners = [(''name'', dt_STR)]"
  by (simp_all add: owners_def from_schema_def Table_init_def graph_at_def example_graph_def)

lemma pets_simps:
  "tid pets = 1" "t_universe pets = 2"
  "t_columns pets = [(''owner'', MaterializedColumn 2 dt_POINTER),
                     (''pet'', MaterializedColumn 2 (Optional dt_STR))]"
  "t_schema pets = [(''owner'', dt_POINTER), (''pet'', Optional dt_STR)]"
  by (simp_all add: pets_def from_schema_def Table_init_def graph_at_def example_graph_def)








subsection \<open>Universe checks: with\_universe\_of, concat, update\_rows\<close>

lemma owners2_simps:
  "tid owners2 = 2" "t_universe owners2 = 3"
  "t_columns owners2 = [(''name'', MaterializedColumn 3 dt_STR)]"
  "t_schema owners2 = [(''name'', dt_STR)]"
  by (simp_all add: owners2_def from_schema_def Table_init_def graph_at_def example_graph_def)

text \<open>
  C4. When the key sets of \<open>self\<close> and \<open>other\<close> agree and the solver proves the universe
  of \<open>self\<close> a subset of that of \<open>other\<close>, \<^verbatim>\<open>update_rows\<close> returns the object \<open>other\<close>
  itself and the graph with one more warning and nothing else changed: no table is built,
  and \<^verbatim>\<open>types_lca\<close>, whatever it is, is not consulted.
\<close>

theorem update_rows_subset_shortcut:
  "set (keys other) = set (keys self) \<Longrightarrow>
   query_is_subset sv (solver G) (t_universe self) (t_universe other) \<Longrightarrow>
     update_rows sv types_lca G self other =
       Inr (other, G\<lparr>warnings := warnings G @ [update_rows_warning]\<rparr>)"
  by (simp add: update_rows_def)

text \<open>
  C2, amended. When the universe of \<open>self\<close> is the very universe of \<open>other\<close>,
  \<^verbatim>\<open>with_universe_of\<close> returns \<^verbatim>\<open>self.copy()\<close>: the columns of \<open>self\<close> wrapped in the rowwise
  context of that universe. Otherwise it promises the two universes equal; when the promise
  raises, so does the call, and else the result has the universe of \<open>other\<close> and the columns
  of \<open>self\<close> wrapped in a \<^verbatim>\<open>PromiseSameUniverse\<close> context carrying the universe of \<open>other\<close>.
\<close>

theorem with_universe_of_by_identity:
  "(t_universe self = t_universe other \<longrightarrow>
      with_universe_of sv G self other = Inr (copy G self) \<and>
      t_universe (fst (copy G self)) = t_universe self \<and>
      t_columns (fst (copy G self)) =
        map (\<lambda>(name, c). (name, ColumnWithExpression (RowwiseContext (t_universe self))
               (t_universe self) (ColumnReference (tid self) c name))) (t_columns self)) \<and>
   (t_universe self \<noteq> t_universe other \<longrightarrow>
      (case promise_are_equal sv (solver G) (t_universe self) (t_universe other) of
         Inl e \<Rightarrow> with_universe_of sv G self other = Inl e
       | Inr s' \<Rightarrow>
           (\<exists>t G'. with_universe_of sv G self other = Inr (t, G') \<and> solver G' = s' \<and>
              t_universe t = t_universe other \<and>
              t_columns t =
                map (\<lambda>(name, c). (name, ColumnWithExpression
                       (PromiseSameUniverseContext (t_universe other) (t_universe self))
                       (t_universe other) (ColumnReference (tid self) c name)))
                  (t_columns self))))"
  by (auto simp: with_universe_of_def copy_def unsafe_promise_universe_def Table_init_def
      wrap_columns_def wrap_column_in_context_def t_context_def Let_def split: sum.splits)

lemma with_columns_Inr:
  "with_columns G self kw = Inr (t, G') \<Longrightarrow>
     t_universe t = t_universe self \<and> solver G' = solver G \<and> warnings G' = warnings G"
  unfolding with_columns_def
  by (auto split: sum.splits dest!: select_Inr
      simp: with_same_universe_def Table_init_def Let_def)

lemma typed_columns_Inr:
  "typed_columns w G self kw = Inr (t, G') \<Longrightarrow>
     t_universe t = t_universe self \<and> solver G' = solver G \<and> warnings G' = warnings G"
  unfolding typed_columns_def
  by (auto split: sum.splits if_splits dest!: with_columns_Inr)

lemma cast_all_Inr:
  "cast_all G schema others = Inr (others', G') \<Longrightarrow>
     map t_universe others' = map t_universe others \<and> solver G' = solver G"
proof (induction others arbitrary: G others')
  case Nil
  then show ?case by simp
next
  case (Cons a others)
  then show ?case
    by (auto split: sum.splits simp: cast_to_types_def dest!: typed_columns_Inr)
qed

lemma concat_impl_Inr:
  "concat_impl sv G self others = Inr (t, G') \<Longrightarrow>
     query_are_disjoint sv (solver G) (t_universe self # map t_universe others) \<and>
     t_universe t = fst (get_union sv (solver G) (t_universe self # map t_universe others))"
  unfolding concat_impl_def
  by (auto simp: Let_def Table_init_def split: if_splits prod.splits sum.splits)

text \<open>
  C3. For arguments with identical key sets: when the solver does not prove the universes
  of the arguments disjoint, \<^verbatim>\<open>concat\<close> returns an error and no table; and every table that
  \<^verbatim>\<open>concat\<close> returns was built with the universes proven disjoint and has the universe the
  solver's \<open>get_union\<close> gives for the universes of the arguments.
\<close>

theorem concat_requires_disjoint_universes:
  "\<forall>other \<in> set others. set (keys other) = set (keys self) \<Longrightarrow>
     (\<not> query_are_disjoint sv (solver G) (t_universe self # map t_universe others) \<longrightarrow>
        isl (concat_tables sv types_lca G self others)) \<and>
     (\<forall>t G'. concat_tables sv types_lca G self others = Inr (t, G') \<longrightarrow>
        query_are_disjoint sv (solver G) (t_universe self # map t_universe others) \<and>
        t_universe t = fst (get_union sv (solver G) (t_universe self # map t_universe others)))"
proof -
  have r: "query_are_disjoint sv (solver G) (t_universe self # map t_universe others) \<and>
        t_universe t = fst (get_union sv (solver G) (t_universe self # map t_universe others))"
    if "concat_tables sv types_lca G self others = Inr (t, G')" for t G'
    using that unfolding concat_tables_def cast_to_types_def
    by (auto split: if_splits sum.splits
        dest!: typed_columns_Inr cast_all_Inr concat_impl_Inr)
  have "isl (concat_tables sv types_lca G self others)"
    if "\<not> query_are_disjoint sv (solver G) (t_universe self # map t_universe others)"
  proof (cases "concat_tables sv types_lca G self others")
    case (Inl a)
    then show ?thesis by simp
  next
    case (Inr b)
    then show ?thesis using r[of "fst b" "snd b"] that by simp
  qed
  with r show ?thesis by blast
qed


lemma keys_owners: "keys owners = [''name'']" "keys owners2 = [''name'']"
  by (simp_all add: keys_def owners_simps owners2_simps)

theorem update_rows_subset_shortcut_witness:
  "query_is_subset simple_solver_ops (solver (promised_graph [] [] [(1, 3)])) 1 3 \<and>
   update_rows simple_solver_ops (\<lambda>a b. Inl TypeError) (promised_graph [] [] [(1, 3)])
       owners owners2 =
     Inr (owners2, (promised_graph [] [] [(1, 3)])\<lparr>warnings := [update_rows_warning]\<rparr>)"
proof -
  have k: "set (keys owners2) = set (keys owners)" by (simp add: keys_owners)
  have q: "query_is_subset simple_solver_ops (solver (promised_graph [] [] [(1, 3)]))
      (t_universe owners) (t_universe owners2)"
    by (simp add: simple_solver_ops_def promised_graph_def owners_simps owners2_simps)
  show ?thesis
    using update_rows_subset_shortcut [OF k q, of "\<lambda>a b. Inl TypeError"] q
    by (simp add: owners_simps owners2_simps promised_graph_def)
qed

theorem with_universe_of_by_identity_witness:
  "with_universe_of simple_solver_ops (promised_graph [] [] []) owners owners =
     Inr (copy (promised_graph [] [] []) owners) \<and>
   t_columns (fst (copy (promised_graph [] [] []) owners)) =
     [(''name'', ColumnWithExpression (RowwiseContext 1) 1
         (ColumnReference 0 (MaterializedColumn 1 dt_STR) ''name''))] \<and>
   (\<exists>t G'. with_universe_of simple_solver_ops (promised_graph [] [] []) owners owners2 =
        Inr (t, G') \<and> equal_pairs (solver G') = [(1, 3)] \<and> t_universe t = 3 \<and>
      t_columns t =
        [(''name'', ColumnWithExpression (PromiseSameUniverseContext 3 1) 3
            (ColumnReference 0 (MaterializedColumn 1 dt_STR) ''name''))])"
proof -
  let ?G = "promised_graph [] [] []"
  have p: "promise_are_equal simple_solver_ops (solver ?G) 1 3 =
      Inr \<lparr>equal_pairs = [(1, 3)], disjoint_pairs = [], subset_pairs = [], fresh = 10\<rparr>"
    by (simp add: simple_solver_ops_def promised_graph_def known_def)
  have a: "with_universe_of simple_solver_ops ?G owners owners = Inr (copy ?G owners) \<and>
      t_columns (fst (copy ?G owners)) =
        [(''name'', ColumnWithExpression (RowwiseContext 1) 1
            (ColumnReference 0 (MaterializedColumn 1 dt_STR) ''name''))]"
    using with_universe_of_by_identity [of owners owners simple_solver_ops ?G]
    by (simp add: owners_simps)
  have b: "\<exists>t G'. with_universe_of simple_solver_ops ?G owners owners2 = Inr (t, G') \<and>
      equal_pairs (solver G') = [(1, 3)] \<and> t_universe t = 3 \<and>
      t_columns t =
        [(''name'', ColumnWithExpression (PromiseSameUniverseContext 3 1) 3
            (ColumnReference 0 (MaterializedColumn 1 dt_STR) ''name''))]"
    using with_universe_of_by_identity [of owners owners2 simple_solver_ops ?G] p
    by (auto simp: owners_simps owners2_simps)
  from a b show ?thesis by blast
qed

lemma with_universe_of_promised:
  "with_universe_of simple_solver_ops (promised_graph [(1, 3)] [] []) owners owners2 =
     Inr (unsafe_promise_universe
            ((promised_graph [(1, 3)] [] [])\<lparr>solver :=
                \<lparr>equal_pairs = [(1, 3), (1, 3)], disjoint_pairs = [], subset_pairs = [],
                 fresh = 10\<rparr>\<rparr>) owners owners2)"
  by (simp add: with_universe_of_def owners_simps owners2_simps simple_solver_ops_def
      promised_graph_def known_def)

text \<open>
  C2, as stated, fails: after a promise that universes 1 and 3 are equal the solver proves
  them equal, yet \<^verbatim>\<open>with_universe_of\<close> does not return a copy of \<open>owners\<close> but a table whose
  column is wrapped in a \<^verbatim>\<open>PromiseSameUniverse\<close> context.
\<close>

theorem with_universe_of_solver_equal_counterexample:
  "query_are_equal simple_solver_ops (solver (promised_graph [(1, 3)] [] []))
     (t_universe owners) (t_universe owners2) \<and>
   \<not> isl (with_universe_of simple_solver_ops (promised_graph [(1, 3)] [] []) owners owners2) \<and>
   fst (projr (with_universe_of simple_solver_ops (promised_graph [(1, 3)] [] []) owners owners2))
     \<noteq> fst (copy (promised_graph [(1, 3)] [] []) owners) \<and>
   t_columns (fst (projr (with_universe_of simple_solver_ops (promised_graph [(1, 3)] [] [])
       owners owners2))) =
     [(''name'', ColumnWithExpression (PromiseSameUniverseContext 3 1) 3
         (ColumnReference 0 (MaterializedColumn 1 dt_STR) ''name''))]"
  unfolding with_universe_of_promised
  by (simp add: unsafe_promise_universe_def copy_def Table_init_def
      wrap_columns_def wrap_column_in_context_def owners_simps owners2_simps t_context_def
      simple_solver_ops_def simple_are_equal_def known_def promised_graph_def Let_def)

lemma cast_owners:
  "t_universe t = u \<Longrightarrow> t_columns t = [(''name'', c)] \<Longrightarrow> column_universe c = u \<Longrightarrow>
   \<exists>t'. cast_to_types G t [(''name'', dt_STR)] = Inr (t', G\<lparr>next_table := Suc (Suc (next_table G))\<rparr>)
      \<and> t_universe t' = u \<and> keys t' = [''name'']"
  by (simp add: cast_to_types_def typed_columns_def keys_def get_colref_by_name_def
      with_columns_def select_def validate_expression_def with_same_universe_def Table_init_def
      table_items_def eval_column_def t_context_def Let_def)

lemma concat_owners_disjoint:
  "\<not> isl (concat_tables simple_solver_ops simple_lca (promised_graph [] [(1, 3)] [])
            owners [owners2])"
proof -
  let ?G = "promised_graph [] [(1, 3)] []"
  have sch: "concat_schema simple_lca owners [owners2] = Inr [(''name'', dt_STR)]"
    by (simp add: concat_schema_def keys_owners dict_get_def owners_simps owners2_simps
        simple_lca_def)
  obtain t1 where t1: "cast_to_types ?G owners [(''name'', dt_STR)] =
      Inr (t1, ?G\<lparr>next_table := Suc (Suc (next_table ?G))\<rparr>)"
      "t_universe t1 = 1" "keys t1 = [''name'']"
    using cast_owners [of owners 1 "MaterializedColumn 1 dt_STR" ?G]
    by (auto simp: owners_simps)
  let ?G1 = "?G\<lparr>next_table := Suc (Suc (next_table ?G))\<rparr>"
  obtain t2 where t2: "cast_to_types ?G1 owners2 [(''name'', dt_STR)] =
      Inr (t2, ?G1\<lparr>next_table := Suc (Suc (next_table ?G1))\<rparr>)"
      "t_universe t2 = 3" "keys t2 = [''name'']"
    using cast_owners [of owners2 3 "MaterializedColumn 3 dt_STR" ?G1]
    by (auto simp: owners2_simps)
  have k2: "\<exists>c. t_columns t2 = [(''name'', c)]"
    using t2(3) by (cases "t_columns t2") (auto simp: keys_def)
  show ?thesis
    using sch t1 t2 k2
    by (auto simp: concat_tables_def keys_owners concat_impl_def columns_by_keys_def
        dict_get_def simple_solver_ops_def promised_graph_def known_def Let_def
        split: prod.splits)
qed

theorem concat_requires_disjoint_universes_witness:
  "isl (concat_tables simple_solver_ops simple_lca (promised_graph [] [] []) owners [owners]) \<and>
   \<not> isl (concat_tables simple_solver_ops simple_lca (promised_graph [] [(1, 3)] [])
            owners [owners2]) \<and>
   t_universe (fst (projr (concat_tables simple_solver_ops simple_lca
       (promised_graph [] [(1, 3)] []) owners [owners2]))) = 10"
proof -
  have k1: "\<forall>other \<in> set [owners]. set (keys other) = set (keys owners)" by simp
  have k2: "\<forall>other \<in> set [owners2]. set (keys other) = set (keys owners)"
    by (simp add: keys_owners)
  have a: "isl (concat_tables simple_solver_ops simple_lca (promised_graph [] [] [])
      owners [owners])"
    using concat_requires_disjoint_universes [OF k1, of simple_solver_ops
        "promised_graph [] [] []" simple_lca]
    by (simp add: simple_solver_ops_def promised_graph_def known_def)
  obtain t G' where r: "concat_tables simple_solver_ops simple_lca
      (promised_graph [] [(1, 3)] []) owners [owners2] = Inr (t, G')"
    using concat_owners_disjoint
    by (cases "concat_tables simple_solver_ops simple_lca (promised_graph [] [(1, 3)] [])
        owners [owners2]") auto
  have "t_universe t = 10"
    using concat_requires_disjoint_universes [OF k2, of simple_solver_ops
        "promised_graph [] [(1, 3)] []" simple_lca] r
    by (simp add: simple_solver_ops_def promised_graph_def owners_simps owners2_simps
        simple_are_equal_def known_def)
  with a r show ?thesis by simp
qed

subsection \<open>Filtering by a test for None\<close>

lemma dict_set_map:
  "distinct (map fst xs) \<Longrightarrow> k \<in> set (map fst xs) \<Longrightarrow>
     dict_set k v (map (\<lambda>(n, c). (n, f n c)) xs) =
     map (\<lambda>(n, c). (n, if n = k then v else f n c)) xs"
proof (induction xs)
  case Nil
  then show ?case by simp
next
  case (Cons x xs)
  obtain n c where x: "x = (n, c)" by (cases x)
  show ?case
  proof (cases "n = k")
    case True
    with Cons.prems x have "k \<notin> set (map fst xs)" by simp
    then have "map (\<lambda>(n, c). (n, if n = k then v else f n c)) xs = map (\<lambda>(n, c). (n, f n c)) xs"
      by (intro map_cong) (auto simp: rev_image_eqI)
    with True x show ?thesis by simp
  next
    case False
    with Cons x show ?thesis by simp
  qed
qed

lemma table_items_ok:
  assumes "distinct (keys t)" "''id'' \<notin> set (keys t)"
  shows "table_items t = Inr (map (\<lambda>(n, c). (n, ColumnReference (tid t) c n)) (t_columns t))"
proof -
  let ?g = "\<lambda>n. (n, ColumnReference (tid t) (the (map_of (t_columns t) n)) n)"
  have "traverse (\<lambda>name. case get_colref_by_name t name of
                         Inl e \<Rightarrow> Inl e | Inr r \<Rightarrow> Inr (name, r)) (keys t) = Inr (map ?g (keys t))"
  proof (rule traverse_Inr_map)
    fix x assume "x \<in> set (keys t)"
    then obtain c where "map_of (t_columns t) x = Some c"
      by (auto simp: keys_def weak_map_of_SomeI dest!: weak_map_of_SomeI)
    moreover have "x \<noteq> ''id''" using \<open>x \<in> set (keys t)\<close> assms(2) by auto
    ultimately show "(case get_colref_by_name t x of Inl e \<Rightarrow> Inl e | Inr r \<Rightarrow> Inr (x, r)) = Inr (?g x)"
      by (simp add: get_colref_by_name_def)
  qed
  moreover have "map ?g (keys t) = map (\<lambda>(n, c). (n, ColumnReference (tid t) c n)) (t_columns t)"
    using assms(1) unfolding keys_def
    by (auto simp: map_of_eq_Some_iff[THEN iffD2])
  ultimately show ?thesis by (simp add: table_items_def)
qed


lemma update_types_single:
  assumes d: "distinct (keys t)" and noid: "''id'' \<notin> set (keys t)"
    and mem: "(name, c) \<in> set (t_columns t)"
    and univ0: "\<forall>(n, col) \<in> set (t_columns t). column_universe col = t_universe t"
  shows "\<exists>t' G'. update_types G t [(name, ty)] = Inr (t', G') \<and>
           t_schema t' = map (\<lambda>(n, col). (n, if n = name then ty else column_dtype col))
                             (t_columns t) \<and>
           t_columns t' = map (\<lambda>(n, col). (n, eval_column t
               (if n = name
                then ColumnReference (next_table G)
                       (eval_column t (DeclareTypeExpression ty (ColumnReference (tid t) c name)))
                       name
                else ColumnReference (tid t) col n))) (t_columns t) \<and>
           t_universe t' = t_universe t \<and> solver G' = solver G"
proof -
  let ?r = "ColumnReference (tid t) c name"
  let ?args = "[(name, DeclareTypeExpression ty ?r)]"
  let ?ocol = "eval_column t (DeclareTypeExpression ty ?r)"
  let ?other = "fst (with_same_universe G t (select_columns t ?args))"
  let ?G1 = "G\<lparr>next_table := Suc (next_table G)\<rparr>"
  let ?new = "ColumnReference (next_table G) ?ocol name"
  let ?all = "map (\<lambda>(n, col). (n, if n = name then ?new else ColumnReference (tid t) col n))
                (t_columns t)"
  have univ: "column_universe col = t_universe t" if "(n, col) \<in> set (t_columns t)" for n col
    using univ0 that by auto
  from d mem have mo: "map_of (t_columns t) name = Some c"
    by (simp add: keys_def)
  from mem have nk: "name \<in> set (keys t)" by (force simp: keys_def)
  with noid have nid: "name \<noteq> ''id''" by auto
  have col: "get_colref_by_name t name = Inr ?r"
    using mo nid by (simp add: get_colref_by_name_def)
  have sel1: "select G t ?args = Inr (?other, ?G1)"
    using select_ok [of ?args t G] univ [OF mem]
    by (simp add: validate_expression_def with_same_universe_simps prod_eq_iff)
  have oth: "t_columns ?other = [(name, ?ocol)]" "tid ?other = next_table G"
    by (simp_all add: with_same_universe_simps select_columns_def)
  have items_o: "table_items ?other = Inr [(name, ?new)]"
    using table_items_ok [of ?other] nid oth by (simp add: keys_def)
  have items_t: "table_items t =
      Inr (map (\<lambda>(n, col). (n, ColumnReference (tid t) col n)) (t_columns t))"
    by (rule table_items_ok [OF d noid])
  have upd: "dict_set name ?new
      (map (\<lambda>(n, col). (n, ColumnReference (tid t) col n)) (t_columns t)) = ?all"
    using dict_set_map [of "t_columns t" name ?new "\<lambda>n col. ColumnReference (tid t) col n"] d nk
    by (simp add: keys_def)
  have sel2: "select ?G1 t ?all = Inr (with_same_universe ?G1 t (select_columns t ?all))"
  proof (rule select_ok)
    fix n e assume "(n, e) \<in> set ?all"
    then obtain col where "(n, col) \<in> set (t_columns t)"
      and e: "e = (if n = name then ?new else ColumnReference (tid t) col n)"
      by auto
    then show "validate_expression t e = Inr ()"
      using univ [of n col]
      by (simp add: validate_expression_def eval_column_def t_context_def)
  qed
  have wc: "with_columns G t ?args = Inr (with_same_universe ?G1 t (select_columns t ?all))"
    by (simp add: with_columns_def sel1 items_o items_t upd sel2)
  have ut: "update_types G t [(name, ty)] =
      Inr (with_same_universe ?G1 t (select_columns t ?all))"
    using nk col wc by (simp add: update_types_def typed_columns_def)
  have sch: "schema_from_columns (select_columns t ?all) =
      map (\<lambda>(n, col). (n, if n = name then ty else column_dtype col)) (t_columns t)"
    by (auto simp: schema_from_columns_def select_columns_def eval_column_def)
  have cols: "select_columns t ?all = map (\<lambda>(n, col). (n, eval_column t
               (if n = name then ?new else ColumnReference (tid t) col n))) (t_columns t)"
    by (auto simp: select_columns_def)
  let ?res = "with_same_universe ?G1 t (select_columns t ?all)"
  have r0: "update_types G t [(name, ty)] = Inr (fst ?res, snd ?res)"
    using ut by simp
  have r1: "t_schema (fst ?res) =
      map (\<lambda>(n, col). (n, if n = name then ty else column_dtype col)) (t_columns t)"
    by (simp only: with_same_universe_simps sch)
  have r2: "t_columns (fst ?res) = map (\<lambda>(n, col). (n, eval_column t
               (if n = name then ?new else ColumnReference (tid t) col n))) (t_columns t)"
    by (simp only: with_same_universe_simps cols)
  have r3: "t_universe (fst ?res) = t_universe t" "solver (snd ?res) = solver G"
    by (simp_all add: with_same_universe_simps)
  from r0 r1 r2 r3 show ?thesis by blast
qed

text \<open>
  C5. Let \<open>T\<close> be a table (its column names distinct, as the keys of a dict are, and none of
  them \<open>id\<close>, the name under which \<^verbatim>\<open>T[name]\<close> yields the id pseudocolumn), and let \<open>c\<close> be
  its column \<open>name\<close>, living in the universe of \<open>T\<close>. Then \<^verbatim>\<open>T.filter(c is not None)\<close> returns
  a table with the column names of \<open>T\<close> in which column \<open>name\<close> has the dtype
  \<^verbatim>\<open>unoptionalize\<close> of the dtype of \<open>c\<close> and every other column has the dtype it has in \<open>T\<close>;
  the schema of the result and the dtypes of its columns agree.
\<close>

theorem filter_is_not_none_narrows:
  assumes d: "distinct (keys T)" and noid: "''id'' \<notin> set (keys T)"
    and mem: "(name, c) \<in> set (t_columns T)"
    and cu: "column_universe c = t_universe T"
  shows "\<exists>ret G'. filter_table sv G T (IsNotNoneExpression (ColumnReference (tid T) c name)) =
             Inr (ret, G') \<and>
           keys ret = keys T \<and>
           t_schema ret = map (\<lambda>(n, col). (n, if n = name then unoptionalize (column_dtype col)
                                              else column_dtype col)) (t_columns T) \<and>
           map (\<lambda>(n, col). (n, column_dtype col)) (t_columns ret) = t_schema ret"
proof -
  let ?e = "IsNotNoneExpression (ColumnReference (tid T) c name)"
  obtain u s' where gs: "get_subset sv (solver G) (t_universe T) = (u, s')"
    by (cases "get_subset sv (solver G) (t_universe T)")
  define ctx where "ctx = FilterContext u (eval_column T ?e) (t_universe T)"
  define ret where "ret = fst (table_with_context (G\<lparr>solver := s'\<rparr>) T ctx)"
  define G1 where "G1 = snd (table_with_context (G\<lparr>solver := s'\<rparr>) T ctx)"
  define ty where "ty = unoptionalize (column_dtype c)"
  define wc where "wc = wrap_column_in_context T ctx c name"
  have fi: "filter_impl sv G T ?e = Inr (ret, G1)"
    using cu gs
    by (simp add: filter_impl_def validate_expression_def eval_column_def t_context_def
        ret_def G1_def ctx_def)
  from d mem have mo: "map_of (t_columns T) name = Some c" by (simp add: keys_def)
  have ft: "filter_table sv G T ?e = update_types G1 ret [(name, ty)]"
    using fi mo by (simp add: filter_table_def eval_type_def dict_get_def ty_def)
  have rc: "t_columns ret = wrap_columns T ctx"
    by (simp add: ret_def table_with_context_def Table_init_def)
  have rk: "keys ret = keys T"
    by (auto simp: keys_def rc wrap_columns_def)
  have dr: "distinct (keys ret)" and nr: "''id'' \<notin> set (keys ret)"
    using d noid rk by simp_all
  have rm: "(name, wc) \<in> set (t_columns ret)"
    using mem by (force simp: rc wrap_columns_def wc_def)
  have ru: "\<forall>(n, col) \<in> set (t_columns ret). column_universe col = t_universe ret"
    by (auto simp: rc wrap_columns_def wrap_column_in_context_def ret_def
        table_with_context_def Table_init_def)
  from update_types_single [OF dr nr rm ru, where G = G1 and ty = ty]
  obtain t' G' where t': "update_types G1 ret [(name, ty)] = Inr (t', G')"
      "t_schema t' = map (\<lambda>(n, col). (n, if n = name then ty else column_dtype col))
          (t_columns ret)"
      "t_columns t' = map (\<lambda>(n, col). (n, eval_column ret
               (if n = name
                then ColumnReference (next_table G1)
                       (eval_column ret (DeclareTypeExpression ty
                          (ColumnReference (tid ret) wc name))) name
                else ColumnReference (tid ret) col n))) (t_columns ret)"
    by blast
  have same: "\<And>n col. (n, col) \<in> set (t_columns T) \<Longrightarrow> n = name \<Longrightarrow> col = c"
    using d mem by (auto simp: keys_def dest: eq_key_imp_eq_value)
  have s1: "t_schema t' = map (\<lambda>(n, col). (n, if n = name then unoptionalize (column_dtype col)
                                              else column_dtype col)) (t_columns T)"
    unfolding t'(2) rc wrap_columns_def ty_def
    by (auto simp: wrap_column_in_context_def dest: same)
  have s2: "map (\<lambda>(n, col). (n, column_dtype col)) (t_columns t') = t_schema t'"
    unfolding t'(2) t'(3)
    by (auto simp: eval_column_def)
  have s3: "keys t' = keys T"
    unfolding keys_def t'(3) rc wrap_columns_def by auto
  show ?thesis
    using ft t'(1) s1 s2 s3 by auto
qed

theorem filter_is_not_none_narrows_witness:
  "\<exists>ret G'. filter_table simple_solver_ops (graph_at 2) pets
       (IsNotNoneExpression (ColumnReference (tid pets) pets_pet ''pet'')) = Inr (ret, G') \<and>
     keys ret = [''owner'', ''pet''] \<and>
     t_schema pets = [(''owner'', dt_POINTER), (''pet'', Optional dt_STR)] \<and>
     t_schema ret = [(''owner'', dt_POINTER), (''pet'', dt_STR)]"
proof -
  have d: "distinct (keys pets)" and n: "''id'' \<notin> set (keys pets)"
    by (simp_all add: keys_def pets_simps)
  have m: "(''pet'', pets_pet) \<in> set (t_columns pets)"
    by (simp add: pets_simps pets_pet_def)
  have u: "column_universe pets_pet = t_universe pets"
    by (simp add: pets_simps pets_pet_def)
  from filter_is_not_none_narrows [OF d n m u, of simple_solver_ops "graph_at 2"]
  show ?thesis
    by (auto simp: pets_simps keys_def pets_pet_def)
qed

subsection \<open>The invariant of produced tables\<close>


































end
